theory Spec2Isabelle
  imports Complex_Main
begin

section \<open>JavaScript values\<close>

text \<open>
  The bodies that the providers return (\<open>response.data\<close>, the result of \<open>JSON.parse\<close>)
  are typed \<open>any\<close> in the source. They are modelled as the values JSON can denote,
  together with \<open>undefined\<close>, which is what reading a missing property yields.
  Strings are the UTF-8 bytes of the JavaScript strings; numbers are rationals
  (\<open>NaN\<close>, the infinities and rounding are not modelled: the service never computes
  with numbers except for the sum in \<open>extractTokenUsage\<close>).
\<close>

datatype jsval =
    Undefined
  | Null
  | Bool bool
  | Num rat
  | Str string
  | Arr "jsval list"
  | Obj "(string \<times> jsval) list"

text \<open>Exceptions: \<open>new Error(msg)\<close> of the source, the \<open>TypeError\<close> the runtime
  raises when a property of \<open>undefined\<close> or \<open>null\<close> is read, and the \<open>SyntaxError\<close>
  of \<open>JSON.parse\<close>. Rejections of the transport are values of the same type, supplied by
  the environment.\<close>

datatype exn = Error string | TypeError string | SyntaxError string

fun message :: "exn \<Rightarrow> string" where
  "message (Error m) = m"
| "message (TypeError m) = m"
| "message (SyntaxError m) = m"

fun truthy :: "jsval \<Rightarrow> bool" where
  "truthy Undefined = False"
| "truthy Null = False"
| "truthy (Bool b) = b"
| "truthy (Num n) = (n \<noteq> 0)"
| "truthy (Str s) = (s \<noteq> [])"
| "truthy (Arr xs) = True"
| "truthy (Obj fs) = True"

text \<open>\<open>a || b\<close>\<close>

definition js_or :: "jsval \<Rightarrow> jsval \<Rightarrow> jsval" where
  "js_or a b = (if truthy a then a else b)"

fun nullish :: "jsval \<Rightarrow> bool" where
  "nullish Undefined = True"
| "nullish Null = True"
| "nullish v = False"

text \<open>Reading a named property of a value that is neither \<open>undefined\<close> nor \<open>null\<close>:
  an object yields its own property (the last binding of a key wins, as in an object
  literal), every other value yields \<open>undefined\<close>. The names read by the service
  (\<open>choices\<close>, \<open>message\<close>, \<open>content\<close>, \<open>text\<close>, \<open>usage\<close>, the token counters) are
  defined on no prototype.\<close>

fun named :: "jsval \<Rightarrow> string \<Rightarrow> jsval" where
  "named (Obj fs) k = (case map_of (rev fs) k of None \<Rightarrow> Undefined | Some v \<Rightarrow> v)"
| "named v k = Undefined"

text \<open>\<open>v[0]\<close> for a value that is neither \<open>undefined\<close> nor \<open>null\<close>: the first element of
  an array, the first character of a string (its first byte here: the service reads
  only \<open>message\<close> or \<open>text\<close> from it, which a string does not have), the property
  \<open>"0"\<close> of an object.\<close>

fun first :: "jsval \<Rightarrow> jsval" where
  "first (Arr xs) = (case xs of [] \<Rightarrow> Undefined | x # _ \<Rightarrow> x)"
| "first (Str s) = (case s of [] \<Rightarrow> Undefined | c # _ \<Rightarrow> Str [c])"
| "first (Obj fs) = named (Obj fs) ''0''"
| "first v = Undefined"

fun typeof_nullish :: "jsval \<Rightarrow> string" where
  "typeof_nullish Null = ''null''"
| "typeof_nullish v = ''undefined''"

text \<open>The message of the \<open>TypeError\<close>, in the wording of V8.\<close>

definition cannot_read :: "jsval \<Rightarrow> string \<Rightarrow> exn" where
  "cannot_read v k =
     TypeError (''Cannot read properties of '' @ typeof_nullish v @ '' (reading '' @
                [CHR 0x27] @ k @ [CHR 0x27] @ '')'')"

text \<open>\<open>v.k\<close>, \<open>v[0]\<close> and \<open>v?.k\<close>\<close>

definition dot :: "jsval \<Rightarrow> string \<Rightarrow> exn + jsval" where
  "dot v k = (if nullish v then Inl (cannot_read v k) else Inr (named v k))"

definition at0 :: "jsval \<Rightarrow> exn + jsval" where
  "at0 v = (if nullish v then Inl (cannot_read v ''0'') else Inr (first v))"

definition opt_dot :: "jsval \<Rightarrow> string \<Rightarrow> jsval" where
  "opt_dot v k = (if nullish v then Undefined else named v k)"

text \<open>Sequencing of steps that may throw.\<close>

definition and_then :: "exn + 'a \<Rightarrow> ('a \<Rightarrow> exn + 'b) \<Rightarrow> exn + 'b" where
  "and_then r f = (case r of Inl e \<Rightarrow> Inl e | Inr v \<Rightarrow> f v)"

text \<open>\<open>s || d\<close> for an optional string: absent and empty strings are falsy.\<close>

definition truthy_str :: "string option \<Rightarrow> bool" where
  "truthy_str s = (case s of None \<Rightarrow> False | Some t \<Rightarrow> t \<noteq> [])"

definition str_or :: "string option \<Rightarrow> string \<Rightarrow> string" where
  "str_or s d = (case s of None \<Rightarrow> d | Some t \<Rightarrow> if t = [] then d else t)"

section \<open>The provider registry\<close>

text \<open>The field \<open>maxTokens\<close> of a provider is \<open>provider_maxTokens\<close> here: the
  name \<open>maxTokens\<close> is kept for the field of the request.\<close>

record LLMProviderConfig =
  name :: string
  apiEndpoint :: string
  apiKey :: string
  models :: "string list"
  provider_maxTokens :: int
  streamingSupport :: bool
  priority :: int

text \<open>The three credentials are read from the process environment when the module is
  loaded; an unset variable gives the empty string (\<open>process.env.X || ''\<close>).\<close>

record process_env =
  NEXT_PUBLIC_OPENAI_API_KEY :: "string option"
  NEXT_PUBLIC_ANTHROPIC_API_KEY :: "string option"
  NEXT_PUBLIC_DEEPSEEK_API_KEY :: "string option"

type_synonym registry = "(string \<times> LLMProviderConfig) list"

definition LLM_PROVIDERS :: "process_env \<Rightarrow> registry" where
  "LLM_PROVIDERS penv =
     [(''openai'',
         \<lparr>name = ''OpenAI'',
          apiEndpoint = ''https://api.openai.com/v1/chat/completions'',
          apiKey = str_or (NEXT_PUBLIC_OPENAI_API_KEY penv) '''',
          models = [''gpt-4-turbo'', ''gpt-3.5-turbo''],
          provider_maxTokens = 4096,
          streamingSupport = True,
          priority = 1\<rparr>),
      (''claude'',
         \<lparr>name = ''Claude'',
          apiEndpoint = ''https://api.anthropic.com/v1/messages'',
          apiKey = str_or (NEXT_PUBLIC_ANTHROPIC_API_KEY penv) '''',
          models = [''claude-3-5-sonnet''],
          provider_maxTokens = 4096,
          streamingSupport = True,
          priority = 2\<rparr>),
      (''deepseek'',
         \<lparr>name = ''DeepSeek'',
          apiEndpoint = ''https://api.deepseek.com/v1/chat/completions'',
          apiKey = str_or (NEXT_PUBLIC_DEEPSEEK_API_KEY penv) '''',
          models = [''deepseek-chat''],
          provider_maxTokens = 2048,
          streamingSupport = False,
          priority = 3\<rparr>)]"

text \<open>\<open>Object.values\<close> lists the values in declaration order.\<close>

definition Object_values :: "registry \<Rightarrow> LLMProviderConfig list" where
  "Object_values reg = map snd reg"

text \<open>\<open>Array.prototype.sort\<close> with a comparator: the language requires the sort to be
  stable, and the stable sort of a list under a consistent comparator is unique, so
  insertion from the right models it. An element goes before the first element it does
  not compare greater than, hence before its equals that came later in the input.\<close>

fun insert_sorted :: "('a \<Rightarrow> 'a \<Rightarrow> int) \<Rightarrow> 'a \<Rightarrow> 'a list \<Rightarrow> 'a list" where
  "insert_sorted cmp x [] = [x]"
| "insert_sorted cmp x (y # ys) =
     (if cmp x y \<le> 0 then x # y # ys else y # insert_sorted cmp x ys)"

fun Array_sort :: "('a \<Rightarrow> 'a \<Rightarrow> int) \<Rightarrow> 'a list \<Rightarrow> 'a list" where
  "Array_sort cmp [] = []"
| "Array_sort cmp (x # xs) = insert_sorted cmp x (Array_sort cmp xs)"

text \<open>The comparator \<open>(a, b) => a.priority - b.priority\<close> and the predicate
  \<open>provider => provider.apiKey\<close> (a string is truthy iff it is not empty).\<close>

definition by_priority :: "LLMProviderConfig \<Rightarrow> LLMProviderConfig \<Rightarrow> int" where
  "by_priority a b = priority a - priority b"

definition has_key :: "LLMProviderConfig \<Rightarrow> bool" where
  "has_key provider = (apiKey provider \<noteq> [])"

text \<open>\<open>getBestProvider\<close> (lines 83-100). The registry is a parameter: the source reads
  the module constant \<open>LLM_PROVIDERS\<close>. A requested name that is absent or empty is falsy;
  a name that is not a key of the registry reads \<open>undefined\<close> or a prototype member
  without \<open>apiKey\<close>, and both fall through to the priority order.\<close>

definition getBestProvider :: "registry \<Rightarrow> string option \<Rightarrow> LLMProviderConfig option" where
  "getBestProvider reg requestedProvider =
     (let availableProviders = Array_sort by_priority (filter has_key (Object_values reg));
          byPriority = (case availableProviders of [] \<Rightarrow> None | p # _ \<Rightarrow> Some p)
      in if truthy_str requestedProvider then
           (case map_of reg (the requestedProvider) of
              None \<Rightarrow> byPriority
            | Some provider \<Rightarrow> if has_key provider then Some provider else byPriority)
         else byPriority)"

text \<open>\<open>LLMService.getAvailableProviders\<close> (lines 222-226)\<close>

definition getAvailableProviders :: "registry \<Rightarrow> LLMProviderConfig list" where
  "getAvailableProviders reg = Array_sort by_priority (filter has_key (Object_values reg))"

section \<open>The provider adapters\<close>

text \<open>The system instruction, written three times in the source (lines 115, 137, 146).\<close>

definition SYSTEM_INSTRUCTION :: string where
  "SYSTEM_INSTRUCTION =
     ''E'' @ [CHR 0xC8, CHR 0x99] @ ''ti un asistent specializat '' @ [CHR 0xC3, CHR 0xAE] @
     ''n analiza datelor despre case de schimb valutar din Rom'' @ [CHR 0xC3, CHR 0xA2] @
     ''nia. R'' @ [CHR 0xC4, CHR 0x83] @ ''spunde concis '' @ [CHR 0xC8, CHR 0x99] @
     ''i direct, oferind informa'' @ [CHR 0xC8, CHR 0x9B] @ ''ii relevante '' @
     [CHR 0xC8, CHR 0x99] @ ''i factuale.''"

definition of_string_option :: "string option \<Rightarrow> jsval" where
  "of_string_option s = (case s of None \<Rightarrow> Undefined | Some t \<Rightarrow> Str t)"

text \<open>\<open>model || provider.models[0]\<close>: reading index 0 of an empty array gives
  \<open>undefined\<close>.\<close>

definition model_or_first :: "string option \<Rightarrow> LLMProviderConfig \<Rightarrow> string option" where
  "model_or_first m provider =
     (if truthy_str m then m else (case models provider of [] \<Rightarrow> None | x # _ \<Rightarrow> Some x))"

definition message_of :: "string \<Rightarrow> string \<Rightarrow> jsval" where
  "message_of role content = Obj [(''role'', Str role), (''content'', Str content)]"

text \<open>\<open>formatPromptForProvider\<close> (lines 103-160)\<close>

definition formatPromptForProvider ::
  "LLMProviderConfig \<Rightarrow> string \<Rightarrow> string option \<Rightarrow> exn + jsval" where
  "formatPromptForProvider provider prompt model =
     (if name provider = ''OpenAI'' then
        Inr (Obj [(''model'', of_string_option (model_or_first model provider)),
                  (''messages'', Arr [message_of ''system'' SYSTEM_INSTRUCTION,
                                      message_of ''user'' prompt]),
                  (''max_tokens'', Num 1000),
                  (''temperature'', Num (7 / 10))])
      else if name provider = ''Claude'' then
        Inr (Obj [(''model'', of_string_option (model_or_first model provider)),
                  (''messages'', Arr [message_of ''user'' prompt]),
                  (''max_tokens'', Num 1000),
                  (''temperature'', Num (7 / 10)),
                  (''system'', Str SYSTEM_INSTRUCTION)])
      else if name provider = ''DeepSeek'' then
        Inr (Obj [(''model'', of_string_option (model_or_first model provider)),
                  (''messages'', Arr [message_of ''system'' SYSTEM_INSTRUCTION,
                                      message_of ''user'' prompt]),
                  (''max_tokens'', Num 1000),
                  (''temperature'', Num (7 / 10))])
      else Inl (Error (''Provider necunoscut: '' @ name provider)))"

text \<open>\<open>responseData.choices[0]?.message?.content || ''\<close> (lines 169, 175)\<close>

definition choices_content :: "jsval \<Rightarrow> exn + jsval" where
  "choices_content responseData =
     and_then (dot responseData ''choices'') (\<lambda>choices.
     and_then (at0 choices) (\<lambda>choice.
     Inr (js_or (opt_dot (opt_dot choice ''message'') ''content'') (Str ''''))))"

text \<open>\<open>responseData.content[0]?.text || ''\<close> (line 172)\<close>

definition content_text :: "jsval \<Rightarrow> exn + jsval" where
  "content_text responseData =
     and_then (dot responseData ''content'') (\<lambda>content.
     and_then (at0 content) (\<lambda>block.
     Inr (js_or (opt_dot block ''text'') (Str ''''))))"

text \<open>\<open>extractResponseFromProvider\<close> (lines 163-180). The declared result type is
  \<open>string\<close>, but a truthy value of any type at the path is returned as it is.\<close>

definition extractResponseFromProvider :: "LLMProviderConfig \<Rightarrow> jsval \<Rightarrow> exn + jsval" where
  "extractResponseFromProvider provider responseData =
     (if name provider = ''OpenAI'' then choices_content responseData
      else if name provider = ''Claude'' then content_text responseData
      else if name provider = ''DeepSeek'' then choices_content responseData
      else Inl (Error (''Provider necunoscut: '' @ name provider)))"

section \<open>The environment\<close>

text \<open>One call of \<open>axios.post\<close>: where it goes, what it carries.\<close>

record dispatch =
  url :: string
  data :: jsval
  headers :: "(string \<times> string) list"
  responseType :: "string option"

text \<open>
  What the service takes from outside: the credentials, the transport, the clock and the
  parts of the JavaScript runtime that are not modelled here.
  \<^item> \<open>axios_post k d\<close> is the outcome of the call \<open>d\<close> made after \<open>k\<close> earlier calls:
    a rejection or the body \<open>response.data\<close>; \<open>axios_post_stream\<close> is the same for a
    call with \<open>responseType: 'stream'\<close>, and yields the chunks that the stream will
    emit as \<open>data\<close> events (a response on which the handler cannot be registered
    throws in the \<open>try\<close> block like a rejection, and counts as one).
  \<^item> \<open>Date_now k\<close> is the value of the read of \<open>Date.now()\<close> made after \<open>k\<close> earlier
    reads.
  \<^item> \<open>ToString\<close> converts a value to a string (template literals, \<open>+=\<close> on a
    string); \<open>plus_coerced\<close> is \<open>+\<close> on operands that are not both numbers;
    \<open>JSON_parse\<close> is \<open>JSON.parse\<close>.
\<close>

record env =
  penv :: process_env
  axios_post :: "nat \<Rightarrow> dispatch \<Rightarrow> exn + jsval"
  axios_post_stream :: "nat \<Rightarrow> dispatch \<Rightarrow> exn + string list"
  Date_now :: "nat \<Rightarrow> int"
  ToString :: "jsval \<Rightarrow> string"
  plus_coerced :: "jsval \<Rightarrow> jsval \<Rightarrow> jsval"
  JSON_parse :: "string \<Rightarrow> exn + jsval"

fun js_plus :: "env \<Rightarrow> jsval \<Rightarrow> jsval \<Rightarrow> jsval" where
  "js_plus env (Num a) (Num b) = Num (a + b)"
| "js_plus env a b = plus_coerced env a b"

record TokenUsage =
  usage_prompt :: jsval
  usage_completion :: jsval
  usage_total :: jsval

text \<open>\<open>responseData.usage?.k || 0\<close>\<close>

definition usage_field :: "jsval \<Rightarrow> string \<Rightarrow> exn + jsval" where
  "usage_field responseData k =
     and_then (dot responseData ''usage'') (\<lambda>usage.
     Inr (js_or (opt_dot usage k) (Num 0)))"

text \<open>The body of the \<open>try\<close> of \<open>extractTokenUsage\<close> (lines 188-212).\<close>

definition extractTokenUsage_try ::
  "env \<Rightarrow> LLMProviderConfig \<Rightarrow> jsval \<Rightarrow> exn + TokenUsage option" where
  "extractTokenUsage_try env provider responseData =
     (if name provider = ''OpenAI'' then
        and_then (usage_field responseData ''prompt_tokens'') (\<lambda>p.
        and_then (usage_field responseData ''completion_tokens'') (\<lambda>c.
        and_then (usage_field responseData ''total_tokens'') (\<lambda>t.
        Inr (Some \<lparr>usage_prompt = p, usage_completion = c, usage_total = t\<rparr>))))
      else if name provider = ''Claude'' then
        and_then (usage_field responseData ''input_tokens'') (\<lambda>p.
        and_then (usage_field responseData ''output_tokens'') (\<lambda>c.
        and_then (usage_field responseData ''input_tokens'') (\<lambda>i.
        and_then (usage_field responseData ''output_tokens'') (\<lambda>out.
        Inr (Some \<lparr>usage_prompt = p, usage_completion = c,
                   usage_total = js_plus env i out\<rparr>)))))
      else if name provider = ''DeepSeek'' then
        and_then (usage_field responseData ''prompt_tokens'') (\<lambda>p.
        and_then (usage_field responseData ''completion_tokens'') (\<lambda>c.
        and_then (usage_field responseData ''total_tokens'') (\<lambda>t.
        Inr (Some \<lparr>usage_prompt = p, usage_completion = c, usage_total = t\<rparr>))))
      else Inr None)"

text \<open>\<open>extractTokenUsage\<close> (lines 183-217): the \<open>catch\<close> turns every exception of the
  body into \<open>undefined\<close>.\<close>

definition extractTokenUsage ::
  "env \<Rightarrow> LLMProviderConfig \<Rightarrow> jsval \<Rightarrow> exn + TokenUsage option" where
  "extractTokenUsage env provider responseData =
     (case extractTokenUsage_try env provider responseData of
        Inl error \<Rightarrow> Inr None
      | Inr usage \<Rightarrow> Inr usage)"

section \<open>Requests, responses and the cache\<close>

text \<open>\<open>onStreamingUpdate\<close> records whether the caller supplied a callback; what the
  callback is called with is collected by the stream handler below.\<close>

record LLMRequest =
  prompt :: string
  model :: "string option"
  maxTokens :: "rat option"
  temperature :: "rat option"
  provider :: "string option"
  streaming :: "bool option"
  onStreamingUpdate :: bool

text \<open>The fields \<open>text\<close>, \<open>provider\<close> and \<open>model\<close> of a response carry the prefix
  \<open>response_\<close>.\<close>

record LLMResponse =
  response_text :: jsval
  response_provider :: string
  response_model :: "string option"
  tokenUsage :: "TokenUsage option"

record CacheItem =
  response :: LLMResponse
  timestamp :: int

definition CACHE_DURATION :: int where
  "CACHE_DURATION = 30 * 60 * 1000"

text \<open>
  The state of the module and the trace of what a call did:
  \<^item> \<open>responseCache\<close> is the module's cache object (its keys all contain \<open>-\<close>, so none
    is the name of a prototype member);
  \<^item> \<open>dispatched\<close> lists the calls of \<open>axios.post\<close> made so far;
  \<^item> \<open>invocations\<close> lists the requests \<open>sendRequest\<close> was entered with so far;
  \<^item> \<open>clock_reads\<close> counts the reads of \<open>Date.now()\<close>;
  \<^item> \<open>listeners\<close> lists the \<open>data\<close> handlers registered on response streams, each
    with its provider and the chunks its stream will emit.
\<close>

record state =
  responseCache :: "string \<rightharpoonup> CacheItem"
  dispatched :: "dispatch list"
  invocations :: "LLMRequest list"
  clock_reads :: nat
  listeners :: "(LLMProviderConfig \<times> string list) list"

text \<open>\<open>n || d\<close> for an optional number\<close>

definition num_or :: "rat option \<Rightarrow> rat \<Rightarrow> rat" where
  "num_or n d = (case n of None \<Rightarrow> d | Some x \<Rightarrow> if x = 0 then d else x)"

text \<open>\<open>createCacheKey\<close> (lines 77-80)\<close>

definition createCacheKey :: "env \<Rightarrow> LLMRequest \<Rightarrow> string" where
  "createCacheKey env request =
     str_or (provider request) ''auto'' @ ''-'' @
     str_or (model request) ''default'' @ ''-'' @
     ToString env (Num (num_or (maxTokens request) 0)) @ ''-'' @
     ToString env (Num (num_or (temperature request) (7 / 10))) @ ''-'' @
     prompt request"

text \<open>The destructuring default \<open>streaming = false\<close>\<close>

definition is_streaming :: "LLMRequest \<Rightarrow> bool" where
  "is_streaming request = (case streaming request of None \<Rightarrow> False | Some b \<Rightarrow> b)"

text \<open>The cache check of \<open>sendRequest\<close> (lines 241-249): the cached response when the
  call returns there. The clock is read only when an entry is found.\<close>

definition cache_check :: "env \<Rightarrow> state \<Rightarrow> LLMRequest \<Rightarrow> LLMResponse option \<times> state" where
  "cache_check env st request =
     (if \<not> is_streaming request then
        (case responseCache st (createCacheKey env request) of
           None \<Rightarrow> (None, st)
         | Some cachedResponse \<Rightarrow>
             (let now = Date_now env (clock_reads st);
                  st' = st\<lparr>clock_reads := Suc (clock_reads st)\<rparr>
              in if now - timestamp cachedResponse < CACHE_DURATION
                 then (Some (response cachedResponse), st')
                 else (None, st')))
      else (None, st))"

text \<open>\<open>{...requestData, stream: true}\<close>\<close>

fun with_stream :: "jsval \<Rightarrow> jsval" where
  "with_stream (Obj fs) = Obj (fs @ [(''stream'', Bool True)])"
| "with_stream v = Obj [(''stream'', Bool True)]"

definition request_headers :: "LLMProviderConfig \<Rightarrow> (string \<times> string) list" where
  "request_headers providerConfig =
     [(''Content-Type'', ''application/json''),
      (''Authorization'', ''Bearer '' @ apiKey providerConfig)]"

text \<open>The streaming branch (lines 266-324). The handler registered on the stream runs
  when the stream emits, in later turns of the event loop; the \<open>return\<close> of line 320
  runs in the turn of the registration and reads \<open>accumulatedText\<close> as it was
  initialised. The source says so: the value returned is a placeholder.\<close>

definition send_streaming ::
  "env \<Rightarrow> state \<Rightarrow> LLMProviderConfig \<Rightarrow> jsval \<Rightarrow> string option \<Rightarrow>
   (exn + LLMResponse) \<times> state" where
  "send_streaming env st providerConfig requestData selectedModel =
     (let call = \<lparr>url = apiEndpoint providerConfig, data = with_stream requestData,
                  headers = request_headers providerConfig, responseType = Some ''stream''\<rparr>;
          st1 = st\<lparr>dispatched := dispatched st @ [call]\<rparr>
      in case axios_post_stream env (length (dispatched st)) call of
           Inl error \<Rightarrow> (Inl error, st1)
         | Inr chunks \<Rightarrow>
             (Inr \<lparr>response_text = Str '''', response_provider = name providerConfig,
                   response_model = selectedModel, tokenUsage = None\<rparr>,
              st1\<lparr>listeners := listeners st1 @ [(providerConfig, chunks)]\<rparr>))"

text \<open>The standard branch (lines 325-360)\<close>

definition send_standard ::
  "env \<Rightarrow> state \<Rightarrow> LLMRequest \<Rightarrow> LLMProviderConfig \<Rightarrow> jsval \<Rightarrow> string option \<Rightarrow>
   (exn + LLMResponse) \<times> state" where
  "send_standard env st request providerConfig requestData selectedModel =
     (let call = \<lparr>url = apiEndpoint providerConfig, data = requestData,
                  headers = request_headers providerConfig, responseType = None\<rparr>;
          st1 = st\<lparr>dispatched := dispatched st @ [call]\<rparr>
      in case axios_post env (length (dispatched st)) call of
           Inl error \<Rightarrow> (Inl error, st1)
         | Inr body \<Rightarrow>
             (case extractResponseFromProvider providerConfig body of
                Inl error \<Rightarrow> (Inl error, st1)
              | Inr responseText \<Rightarrow>
                  (case extractTokenUsage env providerConfig body of
                     Inl error \<Rightarrow> (Inl error, st1)
                   | Inr usage \<Rightarrow>
                       (let llmResponse =
                              \<lparr>response_text = responseText, response_provider = name providerConfig,
                               response_model = selectedModel, tokenUsage = usage\<rparr>;
                            cacheKey = createCacheKey env request;
                            item = \<lparr>response = llmResponse,
                                    timestamp = Date_now env (clock_reads st1)\<rparr>
                        in (Inr llmResponse,
                            st1\<lparr>responseCache := (responseCache st1)(cacheKey \<mapsto> item),
                                clock_reads := Suc (clock_reads st1)\<rparr>)))))"

text \<open>The body of the \<open>try\<close> of \<open>sendRequest\<close> (lines 262-360)\<close>

definition try_dispatch ::
  "env \<Rightarrow> state \<Rightarrow> LLMRequest \<Rightarrow> LLMProviderConfig \<Rightarrow> string option \<Rightarrow>
   (exn + LLMResponse) \<times> state" where
  "try_dispatch env st request providerConfig selectedModel =
     (case formatPromptForProvider providerConfig (prompt request) selectedModel of
        Inl error \<Rightarrow> (Inl error, st)
      | Inr requestData \<Rightarrow>
          if is_streaming request \<and> streamingSupport providerConfig \<and> onStreamingUpdate request
          then send_streaming env st providerConfig requestData selectedModel
          else send_standard env st request providerConfig requestData selectedModel)"

definition NO_PROVIDER :: string where
  "NO_PROVIDER =
     ''Nu a fost g'' @ [CHR 0xC4, CHR 0x83] @ ''sit niciun provider LLM disponibil. Verifica'' @
     [CHR 0xC8, CHR 0x9B] @ ''i cheile API.''"

definition COMMUNICATION_ERROR :: string where
  "COMMUNICATION_ERROR = ''Eroare la comunicarea cu API-ul LLM: ''"

text \<open>\<open>LLMService.sendRequest\<close> (lines 229-375). The call made in the \<open>catch\<close> is not
  inside a \<open>try\<close>: what it returns or throws is what the outer call returns or throws.\<close>

function sendRequest :: "env \<Rightarrow> state \<Rightarrow> LLMRequest \<Rightarrow> (exn + LLMResponse) \<times> state" where
  "sendRequest env st request =
     (case cache_check env (st\<lparr>invocations := invocations st @ [request]\<rparr>) request of
        (Some cachedResponse, st1) \<Rightarrow> (Inr cachedResponse, st1)
      | (None, st1) \<Rightarrow>
          (case getBestProvider (LLM_PROVIDERS (penv env)) (provider request) of
             None \<Rightarrow> (Inl (Error NO_PROVIDER), st1)
           | Some p \<Rightarrow>
               (case try_dispatch env st1 request p (model_or_first (model request) p) of
                  (Inr llmResponse, st2) \<Rightarrow> (Inr llmResponse, st2)
                | (Inl error, st2) \<Rightarrow>
                    if truthy_str (provider request)
                    then sendRequest env st2 (request\<lparr>provider := None\<rparr>)
                    else (Inl (Error (COMMUNICATION_ERROR @ message error)), st2))))"
  by pat_completeness auto
termination
  by (relation "measure (\<lambda>(env, st, request). if truthy_str (provider request) then 1 else 0)")
     (auto simp: truthy_str_def)

declare sendRequest.simps [simp del]

section \<open>Strings\<close>

text \<open>\<open>s.split('\n')\<close>: the pieces between the separators, empty pieces included; the
  result is never empty.\<close>

fun split_on :: "char \<Rightarrow> string \<Rightarrow> string list" where
  "split_on sep [] = [[]]"
| "split_on sep (c # cs) =
     (if c = sep then [] # split_on sep cs
      else (case split_on sep cs of
              [] \<Rightarrow> [[c]]
            | piece # pieces \<Rightarrow> (c # piece) # pieces))"

text \<open>The white space and line terminators that \<open>trim\<close> removes, in UTF-8:
  U+0009 to U+000D, U+0020, U+00A0, U+1680, U+2000 to U+200A, U+2028, U+2029, U+202F,
  U+205F, U+3000 and U+FEFF.\<close>

definition white_space :: "string list" where
  "white_space =
     [[CHR 0x09], [CHR 0x0A], [CHR 0x0B], [CHR 0x0C], [CHR 0x0D], [CHR 0x20],
      [CHR 0xC2, CHR 0xA0],
      [CHR 0xE1, CHR 0x9A, CHR 0x80],
      [CHR 0xE2, CHR 0x80, CHR 0x80], [CHR 0xE2, CHR 0x80, CHR 0x81],
      [CHR 0xE2, CHR 0x80, CHR 0x82], [CHR 0xE2, CHR 0x80, CHR 0x83],
      [CHR 0xE2, CHR 0x80, CHR 0x84], [CHR 0xE2, CHR 0x80, CHR 0x85],
      [CHR 0xE2, CHR 0x80, CHR 0x86], [CHR 0xE2, CHR 0x80, CHR 0x87],
      [CHR 0xE2, CHR 0x80, CHR 0x88], [CHR 0xE2, CHR 0x80, CHR 0x89],
      [CHR 0xE2, CHR 0x80, CHR 0x8A],
      [CHR 0xE2, CHR 0x80, CHR 0xA8], [CHR 0xE2, CHR 0x80, CHR 0xA9],
      [CHR 0xE2, CHR 0x80, CHR 0xAF],
      [CHR 0xE2, CHR 0x81, CHR 0x9F],
      [CHR 0xE3, CHR 0x80, CHR 0x80],
      [CHR 0xEF, CHR 0xBB, CHR 0xBF]]"

definition starts_with :: "string \<Rightarrow> string \<Rightarrow> bool" where
  "starts_with s w = (take (length w) s = w)"

text \<open>Removing the leading characters that are in a list of (non-empty) encodings.\<close>

function strip_leading :: "string list \<Rightarrow> string \<Rightarrow> string" where
  "strip_leading ws s =
     (case find (\<lambda>w. w \<noteq> [] \<and> starts_with s w) ws of
        None \<Rightarrow> s
      | Some w \<Rightarrow> strip_leading ws (drop (length w) s))"
  by pat_completeness auto
termination
proof (relation "measure (\<lambda>(ws, s). length s)")
  show "wf (measure (\<lambda>(ws, s). length s))" by simp
next
  fix ws :: "string list" and s w :: string
  assume "find (\<lambda>w. w \<noteq> [] \<and> starts_with s w) ws = Some w"
  then have w: "w \<noteq> []" "take (length w) s = w"
    by (auto simp: find_Some_iff starts_with_def)
  from w(2) have "length w \<le> length s"
    by (metis length_take min.cobounded1)
  with w(1) have "length (drop (length w) s) < length s" by (cases w) auto
  then show "((ws, drop (length w) s), (ws, s)) \<in> measure (\<lambda>(ws, s). length s)" by simp
qed

declare strip_leading.simps [simp del]

text \<open>\<open>s.trim()\<close>: white space is removed from the start, then from the end.\<close>

definition trim :: "string \<Rightarrow> string" where
  "trim s = rev (strip_leading (map rev white_space) (rev (strip_leading white_space s)))"

section \<open>The stream handler\<close>

text \<open>\<open>accumulatedText += content\<close>: a string is appended as it is, any other value
  after conversion.\<close>

definition to_string :: "env \<Rightarrow> jsval \<Rightarrow> string" where
  "to_string env v = (case v of Str s \<Rightarrow> s | _ \<Rightarrow> ToString env v)"

text \<open>The loop over the lines of a chunk (lines 292-312), on the accumulated text and the
  list of the arguments \<open>onStreamingUpdate\<close> has been called with. A \<open>[DONE]\<close> payload
  returns from the handler: the rest of this chunk is skipped. An exception of
  \<open>JSON.parse\<close> or of the extraction is caught and the loop goes on.\<close>

fun handle_lines ::
  "env \<Rightarrow> LLMProviderConfig \<Rightarrow> string list \<Rightarrow> string \<times> string list \<Rightarrow> string \<times> string list" where
  "handle_lines env p [] (accumulatedText, updates) = (accumulatedText, updates)"
| "handle_lines env p (line # rest) (accumulatedText, updates) =
     (if starts_with line ''data: '' then
        (if drop 6 line = ''[DONE]'' then (accumulatedText, updates)
         else (case and_then (JSON_parse env (drop 6 line)) (extractResponseFromProvider p) of
                 Inl e \<Rightarrow> handle_lines env p rest (accumulatedText, updates)
               | Inr content \<Rightarrow>
                   if truthy content
                   then handle_lines env p rest
                          (accumulatedText @ to_string env content,
                           updates @ [accumulatedText @ to_string env content])
                   else handle_lines env p rest (accumulatedText, updates)))
      else handle_lines env p rest (accumulatedText, updates))"

text \<open>The handler of a \<open>data\<close> event (lines 288-316).\<close>

definition on_data ::
  "env \<Rightarrow> LLMProviderConfig \<Rightarrow> string \<Rightarrow> string \<times> string list \<Rightarrow> string \<times> string list" where
  "on_data env p chunk acc =
     handle_lines env p (filter (\<lambda>line. trim line \<noteq> []) (split_on CHR 0x0A chunk)) acc"

text \<open>The accumulated text and the updates once the stream has emitted all its chunks.\<close>

definition stream_result :: "env \<Rightarrow> LLMProviderConfig \<Rightarrow> string list \<Rightarrow> string \<times> string list" where
  "stream_result env p chunks = fold (on_data env p) chunks ('''', [])"

section \<open>Insights\<close>






section \<open>One pass through the body of sendRequest\<close>

text \<open>For the proofs, the body of \<open>sendRequest\<close> up to its \<open>catch\<close> clause: \<open>Done\<close>
  when the call returns or throws before the \<open>try\<close>, \<open>Caught\<close> with the exception and
  the state when the \<open>try\<close> block threw.\<close>

datatype outcome = Done "(exn + LLMResponse) \<times> state" | Caught exn state

definition attempt :: "env \<Rightarrow> state \<Rightarrow> LLMRequest \<Rightarrow> outcome" where
  "attempt env st request =
     (case cache_check env (st\<lparr>invocations := invocations st @ [request]\<rparr>) request of
        (Some cachedResponse, st1) \<Rightarrow> Done (Inr cachedResponse, st1)
      | (None, st1) \<Rightarrow>
          (case getBestProvider (LLM_PROVIDERS (penv env)) (provider request) of
             None \<Rightarrow> Done (Inl (Error NO_PROVIDER), st1)
           | Some p \<Rightarrow>
               (case try_dispatch env st1 request p (model_or_first (model request) p) of
                  (Inr llmResponse, st2) \<Rightarrow> Done (Inr llmResponse, st2)
                | (Inl error, st2) \<Rightarrow> Caught error st2)))"

definition final_state :: "outcome \<Rightarrow> state" where
  "final_state out = (case out of Done x \<Rightarrow> snd x | Caught e st \<Rightarrow> st)"

text \<open>The sampling parameters that every request body carries.\<close>

definition fixed_sampling :: "jsval \<Rightarrow> bool" where
  "fixed_sampling body =
     (named body ''max_tokens'' = Num 1000 \<and> named body ''temperature'' = Num (7 / 10))"



section \<open>Example inputs\<close>

text \<open>The registry of the specification's example: A without credential, B and C with.\<close>

definition registry_ABC :: registry where
  "registry_ABC =
     [(''A'', \<lparr>name = ''A'', apiEndpoint = ''https://a.example'', apiKey = [],
               models = [''a-1''], provider_maxTokens = 1024, streamingSupport = True,
               priority = 1\<rparr>),
      (''B'', \<lparr>name = ''B'', apiEndpoint = ''https://b.example'', apiKey = ''key-b'',
               models = [''b-1''], provider_maxTokens = 1024, streamingSupport = True,
               priority = 2\<rparr>),
      (''C'', \<lparr>name = ''C'', apiEndpoint = ''https://c.example'', apiKey = ''key-c'',
               models = [''c-1''], provider_maxTokens = 1024, streamingSupport = False,
               priority = 3\<rparr>)]"

text \<open>A registry with two providers of equal priority.\<close>

definition registry_ties :: registry where
  "registry_ties =
     [(''late'', \<lparr>name = ''Late'', apiEndpoint = ''https://late.example'', apiKey = ''k1'',
               models = [], provider_maxTokens = 1, streamingSupport = False, priority = 2\<rparr>),
      (''off'', \<lparr>name = ''Off'', apiEndpoint = ''https://off.example'', apiKey = [],
               models = [], provider_maxTokens = 1, streamingSupport = False, priority = 0\<rparr>),
      (''tie1'', \<lparr>name = ''Tie1'', apiEndpoint = ''https://tie1.example'', apiKey = ''k2'',
               models = [], provider_maxTokens = 1, streamingSupport = False, priority = 1\<rparr>),
      (''tie2'', \<lparr>name = ''Tie2'', apiEndpoint = ''https://tie2.example'', apiKey = ''k3'',
               models = [], provider_maxTokens = 1, streamingSupport = False, priority = 1\<rparr>)]"

text \<open>A process environment with the Anthropic and DeepSeek credentials set.\<close>

definition example_keys :: process_env where
  "example_keys = \<lparr>NEXT_PUBLIC_OPENAI_API_KEY = None,
                    NEXT_PUBLIC_ANTHROPIC_API_KEY = Some ''sk-ant'',
                    NEXT_PUBLIC_DEEPSEEK_API_KEY = Some ''sk-ds''\<rparr>"

text \<open>Bodies as the providers send them, and a transport that answers by endpoint.\<close>

definition openai_body :: "string \<Rightarrow> jsval" where
  "openai_body answer =
     Obj [(''choices'',
            Arr [Obj [(''message'', Obj [(''role'', Str ''assistant''), (''content'', Str answer)])]]),
          (''usage'', Obj [(''prompt_tokens'', Num 3), (''completion_tokens'', Num 1),
                           (''total_tokens'', Num 4)])]"

definition claude_body :: "string \<Rightarrow> jsval" where
  "claude_body answer =
     Obj [(''content'', Arr [Obj [(''type'', Str ''text''), (''text'', Str answer)]]),
          (''usage'', Obj [(''input_tokens'', Num 3), (''output_tokens'', Num 1)])]"

definition reply_to :: "string \<Rightarrow> dispatch \<Rightarrow> jsval" where
  "reply_to answer call =
     (if url call = ''https://api.anthropic.com/v1/messages''
      then claude_body answer else openai_body answer)"

text \<open>The payload \<open>{"content":[{"text":"..."}]}\<close> of a stream event and the value it
  parses to.\<close>

definition event_payload :: "string \<Rightarrow> string" where
  "event_payload answer =
     ''{'' @ [CHR 0x22] @ ''content'' @ [CHR 0x22] @ '':[{'' @ [CHR 0x22] @ ''text'' @
     [CHR 0x22] @ '':'' @ [CHR 0x22] @ answer @ [CHR 0x22] @ ''}]}''"

definition event_value :: "string \<Rightarrow> jsval" where
  "event_value answer = Obj [(''content'', Arr [Obj [(''text'', Str answer)]])]"

definition example_chunks :: "string list" where
  "example_chunks =
     [''data: '' @ event_payload ''Hello'' @ ''\<newline>\<newline>'',
      ''data: '' @ event_payload '' world'' @ ''\<newline>\<newline>data: [DONE]\<newline>\<newline>'']"

definition example_JSON_parse :: "string \<Rightarrow> exn + jsval" where
  "example_JSON_parse s =
     (if s = event_payload ''Hello'' then Inr (event_value ''Hello'')
      else if s = event_payload '' world'' then Inr (event_value '' world'')
      else Inl (SyntaxError ''Unexpected token''))"

definition example_ToString :: "jsval \<Rightarrow> string" where
  "example_ToString v =
     (if v = Num 0 then ''0'' else if v = Num (7 / 10) then ''0.7''
      else if v = Num (1 / 5) then ''0.2'' else if v = Num 50 then ''50''
      else if v = Num 1000 then ''1000'' else ''[object Object]'')"

text \<open>An environment in which every call succeeds and the clock advances by one second
  per read, and one in which the first call is rejected.\<close>

definition example_env :: env where
  "example_env =
     \<lparr>penv = example_keys,
      axios_post = (\<lambda>k call. Inr (reply_to ''a\<newline>\<newline>b\<newline>c'' call)),
      axios_post_stream = (\<lambda>k call. Inr example_chunks),
      Date_now = (\<lambda>k. 1000 * int k),
      ToString = example_ToString,
      plus_coerced = (\<lambda>a b. Str (example_ToString a @ example_ToString b)),
      JSON_parse = example_JSON_parse\<rparr>"

definition flaky_env :: env where
  "flaky_env =
     example_env\<lparr>axios_post :=
       (\<lambda>k call. if k = 0 then Inl (Error ''timeout of 1000ms exceeded'')
                 else Inr (reply_to ''a\<newline>\<newline>b\<newline>c'' call))\<rparr>"

text \<open>The state of the module when it has just been loaded.\<close>

definition initial_state :: state where
  "initial_state =
     \<lparr>responseCache = Map.empty, dispatched = [], invocations = [], clock_reads = 0,
      listeners = []\<rparr>"

definition example_request :: LLMRequest where
  "example_request =
     \<lparr>prompt = ''rates'', model = None, maxTokens = None, temperature = None,
      provider = Some ''deepseek'', streaming = None, onStreamingUpdate = False\<rparr>"

text \<open>An environment in which every call is rejected.\<close>

definition failing_env :: env where
  "failing_env = example_env\<lparr>axios_post := (\<lambda>k call. Inl (Error ''Network Error''))\<rparr>"


definition streaming_request :: LLMRequest where
  "streaming_request =
     \<lparr>prompt = ''rates'', model = None, maxTokens = None, temperature = None,
      provider = Some ''claude'', streaming = Some True, onStreamingUpdate = True\<rparr>"


text \<open>The states after the example request has been served once (with the fallback, without
  it, and under a clock that advances by the cache duration per read), and the responses
  of the two providers.\<close>

definition after_fallback :: state where
  "after_fallback = snd (sendRequest flaky_env initial_state example_request)"

definition after_first :: state where
  "after_first = snd (sendRequest example_env initial_state example_request)"

definition slow_clock_env :: env where
  "slow_clock_env = example_env\<lparr>Date_now := (\<lambda>k. CACHE_DURATION * int k)\<rparr>"

definition deepseek_response :: LLMResponse where
  "deepseek_response =
     \<lparr>response_text = Str ''a\<newline>\<newline>b\<newline>c'', response_provider = ''DeepSeek'',
      response_model = Some ''deepseek-chat'',
      tokenUsage = Some \<lparr>usage_prompt = Num 3, usage_completion = Num 1, usage_total = Num 4\<rparr>\<rparr>"

definition claude_response :: LLMResponse where
  "claude_response =
     \<lparr>response_text = Str ''a\<newline>\<newline>b\<newline>c'', response_provider = ''Claude'',
      response_model = Some ''claude-3-5-sonnet'',
      tokenUsage = Some \<lparr>usage_prompt = Num 3, usage_completion = Num 1, usage_total = Num 4\<rparr>\<rparr>"

definition after_slow :: state where
  "after_slow = snd (sendRequest slow_clock_env initial_state example_request)"

section \<open>Sorting\<close>

lemma set_insert_sorted: "set (insert_sorted cmp x xs) = insert x (set xs)"
  by (induction xs) auto

lemma set_Array_sort: "set (Array_sort cmp xs) = set xs"
  by (induction xs) (auto simp: set_insert_sorted)

lemma length_insert_sorted: "length (insert_sorted cmp x xs) = Suc (length xs)"
  by (induction xs) auto

lemma length_Array_sort: "length (Array_sort cmp xs) = length xs"
  by (induction xs) (auto simp: length_insert_sorted)

lemma count_insert_sorted:
  "count_list (insert_sorted cmp x xs) y = count_list (x # xs) y"
  by (induction xs) auto

lemma count_Array_sort: "count_list (Array_sort cmp xs) y = count_list xs y"
  by (induction xs) (auto simp: count_insert_sorted)

lemma sorted_insert_priority:
  "sorted (map priority xs) \<Longrightarrow> sorted (map priority (insert_sorted by_priority x xs))"
  by (induction xs) (auto simp: by_priority_def set_insert_sorted)

lemma sorted_Array_sort_priority: "sorted (map priority (Array_sort by_priority xs))"
  by (induction xs) (auto simp: sorted_insert_priority)

lemma filter_insert_sorted_priority:
  "sorted (map priority xs) \<Longrightarrow>
   filter (\<lambda>p. priority p = k) (insert_sorted by_priority x xs) =
   filter (\<lambda>p. priority p = k) (x # xs)"
proof (induction xs)
  case Nil
  then show ?case by simp
next
  case (Cons y ys)
  show ?case
  proof (cases "by_priority x y \<le> 0")
    case True
    then show ?thesis by simp
  next
    case False
    then have lt: "priority y < priority x" by (simp add: by_priority_def)
    from Cons have ih:
      "filter (\<lambda>p. priority p = k) (insert_sorted by_priority x ys) =
       filter (\<lambda>p. priority p = k) (x # ys)" by simp
    show ?thesis
    proof (cases "priority x = k")
      case xk: True
      with lt have "priority y \<noteq> k" by simp
      with False ih show ?thesis by simp
    next
      case xk: False
      with False ih show ?thesis by simp
    qed
  qed
qed

lemma filter_Array_sort_priority:
  "filter (\<lambda>p. priority p = k) (Array_sort by_priority xs) = filter (\<lambda>p. priority p = k) xs"
proof (induction xs)
  case Nil
  then show ?case by simp
next
  case (Cons x xs)
  have "filter (\<lambda>p. priority p = k) (Array_sort by_priority (x # xs)) =
        filter (\<lambda>p. priority p = k) (x # Array_sort by_priority xs)"
    by (simp add: filter_insert_sorted_priority sorted_Array_sort_priority)
  with Cons show ?case by simp
qed

section \<open>Provider selection\<close>

lemma hd_Array_sort_min:
  "Array_sort by_priority xs = b # bs \<Longrightarrow> b \<in> set xs \<and> (\<forall>q\<in>set xs. priority b \<le> priority q)"
proof -
  assume a: "Array_sort by_priority xs = b # bs"
  have s: "sorted (map priority (Array_sort by_priority xs))" by (rule sorted_Array_sort_priority)
  have "set (Array_sort by_priority xs) = set xs" by (rule set_Array_sort)
  with a s show ?thesis by auto
qed

lemma getBestProvider_fallback:
  "\<not> truthy_str r \<or> map_of reg (the r) = None \<or> (\<exists>p. map_of reg (the r) = Some p \<and> apiKey p = [])
   \<Longrightarrow> getBestProvider reg r = (case getAvailableProviders reg of [] \<Rightarrow> None | b # _ \<Rightarrow> Some b)"
  by (auto simp: getBestProvider_def getAvailableProviders_def Let_def has_key_def split: option.splits)

lemma getBestProvider_named:
  "n \<noteq> [] \<Longrightarrow> map_of reg n = Some p \<Longrightarrow> apiKey p \<noteq> [] \<Longrightarrow> getBestProvider reg (Some n) = Some p"
  by (simp add: getBestProvider_def truthy_str_def has_key_def)

lemma map_of_LLM_PROVIDERS_Nil: "map_of (LLM_PROVIDERS pe) [] = None"
  by (simp add: LLM_PROVIDERS_def)

lemma getBestProvider_by_priority:
  assumes "r = None \<or> map_of reg (the r) = None \<or> (\<exists>q. map_of reg (the r) = Some q \<and> apiKey q = [])"
  shows "if \<forall>q \<in> set (Object_values reg). apiKey q = []
         then getBestProvider reg r = None
         else \<exists>b. getBestProvider reg r = Some b
                 \<and> b \<in> set (Object_values reg) \<and> apiKey b \<noteq> []
                 \<and> (\<forall>q \<in> set (Object_values reg). apiKey q \<noteq> [] \<longrightarrow> priority b \<le> priority q)"
proof -
  let ?av = "filter has_key (Object_values reg)"
  from assms have "\<not> truthy_str r \<or> map_of reg (the r) = None
      \<or> (\<exists>p. map_of reg (the r) = Some p \<and> apiKey p = [])"
    by (auto simp: truthy_str_def)
  then have eq: "getBestProvider reg r = (case getAvailableProviders reg of [] \<Rightarrow> None | b # _ \<Rightarrow> Some b)"
    by (rule getBestProvider_fallback)
  show ?thesis
  proof (cases "getAvailableProviders reg")
    case Nil
    then have "length ?av = 0"
      using length_Array_sort [of by_priority ?av] by (simp add: getAvailableProviders_def)
    then have "\<forall>q \<in> set (Object_values reg). apiKey q = []"
      by (auto simp: filter_empty_conv has_key_def)
    with eq Nil show ?thesis by simp
  next
    case (Cons b bs)
    then have "Array_sort by_priority ?av = b # bs" by (simp add: getAvailableProviders_def)
    then have "b \<in> set ?av \<and> (\<forall>q\<in>set ?av. priority b \<le> priority q)"
      by (rule hd_Array_sort_min)
    then have b: "b \<in> set (Object_values reg)" "apiKey b \<noteq> []"
        "\<forall>q \<in> set (Object_values reg). apiKey q \<noteq> [] \<longrightarrow> priority b \<le> priority q"
      by (auto simp: has_key_def)
    from b(1,2) have "\<not> (\<forall>q \<in> set (Object_values reg). apiKey q = [])" by blast
    with eq Cons b show ?thesis by simp
  qed
qed

text \<open>
  Claim C6. \<open>getBestProvider(name)\<close> on the registry of the module, whatever the
  credentials are: a name that denotes a provider with a non-empty credential gets that
  provider, even when a provider of higher priority is available; a name that is absent,
  unknown or denotes a provider without credential gets a provider with credential whose
  priority number is the lowest among those with credential; when no provider has a
  credential the result is none. On the registry of the example, with A (priority 1, no
  credential), B (priority 2) and C (priority 3): no name gives B, \<open>A\<close> gives B and
  \<open>C\<close> gives C.
\<close>

theorem getBestProvider_spec:
  "(map_of (LLM_PROVIDERS pe) n = Some p \<and> apiKey p \<noteq> [] \<longrightarrow>
      getBestProvider (LLM_PROVIDERS pe) (Some n) = Some p)
   \<and> ((r = None \<or> map_of (LLM_PROVIDERS pe) (the r) = None
        \<or> (\<exists>q. map_of (LLM_PROVIDERS pe) (the r) = Some q \<and> apiKey q = [])) \<longrightarrow>
       (if \<forall>q \<in> set (Object_values (LLM_PROVIDERS pe)). apiKey q = []
        then getBestProvider (LLM_PROVIDERS pe) r = None
        else \<exists>b. getBestProvider (LLM_PROVIDERS pe) r = Some b
                 \<and> b \<in> set (Object_values (LLM_PROVIDERS pe)) \<and> apiKey b \<noteq> []
                 \<and> (\<forall>q \<in> set (Object_values (LLM_PROVIDERS pe)).
                        apiKey q \<noteq> [] \<longrightarrow> priority b \<le> priority q)))
   \<and> getBestProvider registry_ABC None = map_of registry_ABC ''B''
   \<and> getBestProvider registry_ABC (Some ''A'') = map_of registry_ABC ''B''
   \<and> getBestProvider registry_ABC (Some ''C'') = map_of registry_ABC ''C''"
proof (intro conjI impI)
  assume "map_of (LLM_PROVIDERS pe) n = Some p \<and> apiKey p \<noteq> []"
  moreover from this have "n \<noteq> []" using map_of_LLM_PROVIDERS_Nil [of pe] by auto
  ultimately show "getBestProvider (LLM_PROVIDERS pe) (Some n) = Some p"
    by (simp add: getBestProvider_named)
next
  assume "r = None \<or> map_of (LLM_PROVIDERS pe) (the r) = None
        \<or> (\<exists>q. map_of (LLM_PROVIDERS pe) (the r) = Some q \<and> apiKey q = [])"
  then show "if \<forall>q \<in> set (Object_values (LLM_PROVIDERS pe)). apiKey q = []
        then getBestProvider (LLM_PROVIDERS pe) r = None
        else \<exists>b. getBestProvider (LLM_PROVIDERS pe) r = Some b
                 \<and> b \<in> set (Object_values (LLM_PROVIDERS pe)) \<and> apiKey b \<noteq> []
                 \<and> (\<forall>q \<in> set (Object_values (LLM_PROVIDERS pe)).
                        apiKey q \<noteq> [] \<longrightarrow> priority b \<le> priority q)"
    by (rule getBestProvider_by_priority)
next
  show "getBestProvider registry_ABC None = map_of registry_ABC ''B''"
    by (simp add: getBestProvider_def registry_ABC_def Object_values_def has_key_def
        by_priority_def truthy_str_def)
next
  show "getBestProvider registry_ABC (Some ''A'') = map_of registry_ABC ''B''"
    by (simp add: getBestProvider_def registry_ABC_def Object_values_def has_key_def
        by_priority_def truthy_str_def)
next
  show "getBestProvider registry_ABC (Some ''C'') = map_of registry_ABC ''C''"
    by (simp add: getBestProvider_def registry_ABC_def Object_values_def has_key_def
        by_priority_def truthy_str_def)
qed

theorem getBestProvider_spec_witness:
  "getBestProvider (LLM_PROVIDERS example_keys) (Some ''deepseek'') =
     map_of (LLM_PROVIDERS example_keys) ''deepseek''
   \<and> (\<exists>b. getBestProvider (LLM_PROVIDERS example_keys) (Some ''openai'') = Some b \<and> priority b = 2)
   \<and> getBestProvider (LLM_PROVIDERS \<lparr>NEXT_PUBLIC_OPENAI_API_KEY = None,
          NEXT_PUBLIC_ANTHROPIC_API_KEY = None, NEXT_PUBLIC_DEEPSEEK_API_KEY = Some []\<rparr>) None = None"
  using getBestProvider_spec [of example_keys "''deepseek''"
      "the (map_of (LLM_PROVIDERS example_keys) ''deepseek'')" "Some ''openai''"]
    getBestProvider_spec [of "\<lparr>NEXT_PUBLIC_OPENAI_API_KEY = None,
          NEXT_PUBLIC_ANTHROPIC_API_KEY = None, NEXT_PUBLIC_DEEPSEEK_API_KEY = Some []\<rparr>" "[]"
      undefined None]
  by (simp add: LLM_PROVIDERS_def example_keys_def str_or_def Object_values_def
      getBestProvider_def has_key_def by_priority_def truthy_str_def)

lemma count_list_filter: "count_list (filter P xs) y = (if P y then count_list xs y else 0)"
  by (induction xs) auto

text \<open>
  Claim C7. \<open>getAvailableProviders()\<close> returns exactly the providers whose credential
  is not empty (each as often as the registry lists it), in ascending order of priority,
  and providers of equal priority stay in the order of the registry's declaration.
\<close>

theorem getAvailableProviders_spec:
  "set (getAvailableProviders reg) = {p \<in> set (Object_values reg). apiKey p \<noteq> []}
   \<and> (\<forall>p. count_list (getAvailableProviders reg) p =
          (if apiKey p \<noteq> [] then count_list (Object_values reg) p else 0))
   \<and> sorted (map priority (getAvailableProviders reg))
   \<and> (\<forall>k. filter (\<lambda>p. priority p = k) (getAvailableProviders reg) =
          filter (\<lambda>p. priority p = k) (filter (\<lambda>p. apiKey p \<noteq> []) (Object_values reg)))"
proof (intro conjI allI)
  show "set (getAvailableProviders reg) = {p \<in> set (Object_values reg). apiKey p \<noteq> []}"
    by (simp add: getAvailableProviders_def set_Array_sort has_key_def)
next
  fix p
  show "count_list (getAvailableProviders reg) p =
          (if apiKey p \<noteq> [] then count_list (Object_values reg) p else 0)"
    by (simp add: getAvailableProviders_def count_Array_sort count_list_filter has_key_def)
next
  show "sorted (map priority (getAvailableProviders reg))"
    by (simp add: getAvailableProviders_def sorted_Array_sort_priority)
next
  fix k
  have "has_key = (\<lambda>p. apiKey p \<noteq> [])" by (simp add: has_key_def fun_eq_iff)
  then show "filter (\<lambda>p. priority p = k) (getAvailableProviders reg) =
          filter (\<lambda>p. priority p = k) (filter (\<lambda>p. apiKey p \<noteq> []) (Object_values reg))"
    by (simp add: getAvailableProviders_def filter_Array_sort_priority)
qed

theorem getAvailableProviders_spec_witness:
  "map name (getAvailableProviders registry_ties) = [''Tie1'', ''Tie2'', ''Late'']
   \<and> sorted (map priority (getAvailableProviders registry_ties))
   \<and> map name (filter (\<lambda>p. priority p = 1) (getAvailableProviders registry_ties)) = [''Tie1'', ''Tie2'']
   \<and> map name (getAvailableProviders (LLM_PROVIDERS example_keys)) = [''Claude'', ''DeepSeek'']"
  using getAvailableProviders_spec [of registry_ties]
  by (simp add: getAvailableProviders_def registry_ties_def Object_values_def has_key_def
      by_priority_def LLM_PROVIDERS_def example_keys_def str_or_def)

section \<open>Response extraction\<close>

text \<open>
  Claim C8. For every provider and every response body, \<open>extractTokenUsage\<close> returns
  and throws nothing: an exception raised while the usage fields are read is caught and
  the result is \<open>undefined\<close>, and for a provider name the function does not know the
  result is \<open>undefined\<close> as well.
\<close>

theorem extractTokenUsage_never_throws:
  "(\<exists>u. extractTokenUsage env p d = Inr u)
   \<and> (\<forall>e. extractTokenUsage_try env p d = Inl e \<longrightarrow> extractTokenUsage env p d = Inr None)
   \<and> (name p \<noteq> ''OpenAI'' \<and> name p \<noteq> ''Claude'' \<and> name p \<noteq> ''DeepSeek'' \<longrightarrow>
        extractTokenUsage env p d = Inr None)"
  by (auto simp: extractTokenUsage_def extractTokenUsage_try_def split: sum.splits)

theorem extractTokenUsage_never_throws_witness:
  "extractTokenUsage_try undefined (the (map_of (LLM_PROVIDERS example_keys) ''claude'')) Null =
     Inl (cannot_read Null ''usage'')
   \<and> extractTokenUsage undefined (the (map_of (LLM_PROVIDERS example_keys) ''claude'')) Null = Inr None
   \<and> extractTokenUsage undefined (the (map_of registry_ABC ''B'')) (Obj []) = Inr None"
  using extractTokenUsage_never_throws [of undefined "the (map_of (LLM_PROVIDERS example_keys) ''claude'')" Null]
    extractTokenUsage_never_throws [of undefined "the (map_of registry_ABC ''B'')" "Obj []"]
  by (simp add: extractTokenUsage_try_def usage_field_def dot_def and_then_def
      LLM_PROVIDERS_def registry_ABC_def)

text \<open>
  Claim C5 says that \<open>extractResponseFromProvider\<close> returns the empty string whenever
  the expected path is absent at any level. The optional chaining of the source starts
  below the first level: a body without \<open>choices\<close> (without \<open>content\<close> for Claude),
  such as an error body, makes each of the three adapters throw a \<open>TypeError\<close>.
\<close>

theorem extractResponseFromProvider_throws_without_choices:
  "map (\<lambda>p. extractResponseFromProvider p (Obj [(''error'', Str ''overloaded'')]))
       (Object_values (LLM_PROVIDERS example_keys)) =
     [Inl (cannot_read Undefined ''0''), Inl (cannot_read Undefined ''0''),
      Inl (cannot_read Undefined ''0'')]
   \<and> message (cannot_read Undefined ''0'') =
       ''Cannot read properties of undefined (reading '' @ [CHR 0x27] @ ''0'' @ [CHR 0x27] @ '')''"
  by (simp add: extractResponseFromProvider_def choices_content_def content_text_def
      dot_def at0_def and_then_def cannot_read_def LLM_PROVIDERS_def Object_values_def)

text \<open>Below the first level the path may be absent: the adapters do not throw.\<close>

lemma extractResponseFromProvider_below_first_level:
  "name p = ''OpenAI'' \<or> name p = ''DeepSeek'' \<Longrightarrow> \<not> nullish d \<Longrightarrow> \<not> nullish (named d ''choices'') \<Longrightarrow>
   \<exists>v. extractResponseFromProvider p d = Inr v"
  by (auto simp: extractResponseFromProvider_def choices_content_def dot_def at0_def and_then_def)

section \<open>The request router\<close>

lemma sendRequest_attempt:
  "sendRequest env st r =
     (case attempt env st r of
        Done x \<Rightarrow> x
      | Caught e st2 \<Rightarrow>
          if truthy_str (provider r) then sendRequest env st2 (r\<lparr>provider := None\<rparr>)
          else (Inl (Error (COMMUNICATION_ERROR @ message e)), st2))"
  by (subst sendRequest.simps)
     (simp add: attempt_def split: prod.splits option.splits sum.splits)

lemma sendRequest_two_attempts:
  "sendRequest env st r =
     (case attempt env st r of
        Done x \<Rightarrow> x
      | Caught e st2 \<Rightarrow>
          if truthy_str (provider r) then
            (case attempt env st2 (r\<lparr>provider := None\<rparr>) of
               Done x \<Rightarrow> x
             | Caught e' st3 \<Rightarrow> (Inl (Error (COMMUNICATION_ERROR @ message e')), st3))
          else (Inl (Error (COMMUNICATION_ERROR @ message e)), st2))"
proof -
  have "\<not> truthy_str (provider (r\<lparr>provider := None\<rparr>))" by (simp add: truthy_str_def)
  then have "sendRequest env st2 (r\<lparr>provider := None\<rparr>) =
     (case attempt env st2 (r\<lparr>provider := None\<rparr>) of
               Done x \<Rightarrow> x
             | Caught e' st3 \<Rightarrow> (Inl (Error (COMMUNICATION_ERROR @ message e')), st3))" for st2
    by (subst sendRequest_attempt) (simp split: outcome.splits)
  then show ?thesis
    by (subst sendRequest_attempt) (simp split: outcome.splits)
qed

lemma getBestProvider_mem:
  "getBestProvider reg x = Some p \<Longrightarrow> p \<in> set (Object_values reg) \<and> apiKey p \<noteq> []"
proof -
  assume a: "getBestProvider reg x = Some p"
  let ?av = "Array_sort by_priority (filter has_key (Object_values reg))"
  have av: "set ?av = {q \<in> set (Object_values reg). apiKey q \<noteq> []}"
    by (auto simp: set_Array_sort has_key_def)
  from a consider "map_of reg (the x) = Some p" "has_key p" | "\<exists>ps. ?av = p # ps"
    by (auto simp: getBestProvider_def Let_def split: if_splits option.splits list.splits)
  then show ?thesis
  proof cases
    case 1
    then have "(the x, p) \<in> set reg" by (simp add: map_of_SomeD)
    then have "p \<in> set (Object_values reg)" by (force simp: Object_values_def)
    with 1 show ?thesis by (simp add: has_key_def)
  next
    case 2
    then have "p \<in> set ?av" by auto
    with av show ?thesis by simp
  qed
qed

lemma getBestProvider_known:
  "getBestProvider (LLM_PROVIDERS pe) x = Some p \<Longrightarrow>
   name p = ''OpenAI'' \<or> name p = ''Claude'' \<or> name p = ''DeepSeek''"
  by (drule getBestProvider_mem) (auto simp: LLM_PROVIDERS_def Object_values_def)

lemma formatPromptForProvider_fixed:
  "formatPromptForProvider p pr m = Inr body \<Longrightarrow> fixed_sampling body \<and> fixed_sampling (with_stream body)"
  by (auto simp: formatPromptForProvider_def fixed_sampling_def split: if_splits)

lemma formatPromptForProvider_known:
  "name p = ''OpenAI'' \<or> name p = ''Claude'' \<or> name p = ''DeepSeek'' \<Longrightarrow>
   \<exists>body. formatPromptForProvider p pr m = Inr body"
  by (auto simp: formatPromptForProvider_def)

lemma cache_check_fields:
  "cache_check env st r = (c, st') \<Longrightarrow>
   responseCache st' = responseCache st \<and> dispatched st' = dispatched st \<and>
   invocations st' = invocations st \<and> listeners st' = listeners st"
  by (auto simp: cache_check_def Let_def split: if_splits option.splits)

lemma cache_check_streaming: "is_streaming r \<Longrightarrow> cache_check env st r = (None, st)"
  by (simp add: cache_check_def)

lemma send_streaming_facts:
  "send_streaming env st p body m = (res, st') \<Longrightarrow>
   (\<exists>call. dispatched st' = dispatched st @ [call] \<and> data call = with_stream body)
   \<and> responseCache st' = responseCache st \<and> invocations st' = invocations st
   \<and> clock_reads st' = clock_reads st
   \<and> (\<forall>resp. res = Inr resp \<longrightarrow>
         resp = \<lparr>response_text = Str [], response_provider = name p,
                 response_model = m, tokenUsage = None\<rparr>)"
  by (auto simp: send_streaming_def Let_def split: sum.splits)

lemma send_standard_facts:
  "send_standard env st r p body m = (res, st') \<Longrightarrow>
   (\<exists>call. dispatched st' = dispatched st @ [call] \<and> data call = body)
   \<and> invocations st' = invocations st \<and> listeners st' = listeners st
   \<and> (\<forall>resp. res = Inr resp \<longrightarrow>
         responseCache st' = (responseCache st)(createCacheKey env r \<mapsto>
            \<lparr>response = resp, timestamp = Date_now env (clock_reads st)\<rparr>)
         \<and> clock_reads st' = Suc (clock_reads st))
   \<and> (\<forall>e. res = Inl e \<longrightarrow> responseCache st' = responseCache st \<and> clock_reads st' = clock_reads st)"
  by (auto simp: send_standard_def Let_def split: sum.splits)

lemma try_dispatch_facts:
  assumes "try_dispatch env st r p m = (res, st')"
  shows "invocations st' = invocations st"
    and "\<exists>ds. dispatched st' = dispatched st @ ds \<and> length ds \<le> 1
              \<and> (\<forall>d \<in> set ds. fixed_sampling (data d))"
proof -
  show "invocations st' = invocations st"
    using assms send_streaming_facts send_standard_facts
    by (fastforce simp: try_dispatch_def split: sum.splits if_splits)
next
  show "\<exists>ds. dispatched st' = dispatched st @ ds \<and> length ds \<le> 1
              \<and> (\<forall>d \<in> set ds. fixed_sampling (data d))"
  proof (cases "formatPromptForProvider p (prompt r) m")
    case (Inl e)
    with assms have "dispatched st' = dispatched st @ []" by (simp add: try_dispatch_def)
    then show ?thesis by force
  next
    case (Inr body)
    then have fx: "fixed_sampling body" "fixed_sampling (with_stream body)"
      using formatPromptForProvider_fixed by blast+
    show ?thesis
    proof (cases "is_streaming r \<and> streamingSupport p \<and> onStreamingUpdate r")
      case True
      with assms Inr have "send_streaming env st p body m = (res, st')"
        by (simp add: try_dispatch_def)
      then obtain call where "dispatched st' = dispatched st @ [call]" "data call = with_stream body"
        using send_streaming_facts by blast
      with fx show ?thesis by force
    next
      case False
      with assms Inr have "send_standard env st r p body m = (res, st')"
        by (auto simp: try_dispatch_def)
      then obtain call where "dispatched st' = dispatched st @ [call]" "data call = body"
        using send_standard_facts by blast
      with fx show ?thesis by force
    qed
  qed
qed

lemma attempt_cases:
  obtains
    (hit) c st1 where "cache_check env (st\<lparr>invocations := invocations st @ [r]\<rparr>) r = (Some c, st1)"
      "attempt env st r = Done (Inr c, st1)"
  | (none) st1 where "cache_check env (st\<lparr>invocations := invocations st @ [r]\<rparr>) r = (None, st1)"
      "getBestProvider (LLM_PROVIDERS (penv env)) (provider r) = None"
      "attempt env st r = Done (Inl (Error NO_PROVIDER), st1)"
  | (sent) st1 p resp st2 where "cache_check env (st\<lparr>invocations := invocations st @ [r]\<rparr>) r = (None, st1)"
      "getBestProvider (LLM_PROVIDERS (penv env)) (provider r) = Some p"
      "try_dispatch env st1 r p (model_or_first (model r) p) = (Inr resp, st2)"
      "attempt env st r = Done (Inr resp, st2)"
  | (failed) st1 p e st2 where "cache_check env (st\<lparr>invocations := invocations st @ [r]\<rparr>) r = (None, st1)"
      "getBestProvider (LLM_PROVIDERS (penv env)) (provider r) = Some p"
      "try_dispatch env st1 r p (model_or_first (model r) p) = (Inl e, st2)"
      "attempt env st r = Caught e st2"
proof -
  obtain c st1 where cc: "cache_check env (st\<lparr>invocations := invocations st @ [r]\<rparr>) r = (c, st1)"
    by (cases "cache_check env (st\<lparr>invocations := invocations st @ [r]\<rparr>) r") auto
  show thesis
  proof (cases c)
    case (Some cachedResponse)
    with cc hit show thesis by (simp add: attempt_def)
  next
    case None
    note c_none = this
    show thesis
    proof (cases "getBestProvider (LLM_PROVIDERS (penv env)) (provider r)")
      case None
      with cc c_none none show thesis by (simp add: attempt_def)
    next
      case (Some p)
      obtain res st2 where td: "try_dispatch env st1 r p (model_or_first (model r) p) = (res, st2)"
        by (cases "try_dispatch env st1 r p (model_or_first (model r) p)") auto
      show thesis
      proof (cases res)
        case (Inl e)
        with cc c_none Some td failed show thesis by (simp add: attempt_def)
      next
        case (Inr resp)
        with cc c_none Some td sent show thesis by (simp add: attempt_def)
      qed
    qed
  qed
qed

lemma attempt_trace:
  "invocations (final_state (attempt env st r)) = invocations st @ [r]"
  "\<exists>ds. dispatched (final_state (attempt env st r)) = dispatched st @ ds \<and> length ds \<le> 1
        \<and> (\<forall>d \<in> set ds. fixed_sampling (data d))"
proof -
  show "invocations (final_state (attempt env st r)) = invocations st @ [r]"
  proof (cases rule: attempt_cases [of env st r])
    case (hit c st1)
    then show ?thesis using cache_check_fields by (fastforce simp: final_state_def)
  next
    case (none st1)
    then show ?thesis using cache_check_fields by (fastforce simp: final_state_def)
  next
    case (sent st1 p resp st2)
    then show ?thesis using cache_check_fields try_dispatch_facts(1)
      by (fastforce simp: final_state_def)
  next
    case (failed st1 p e st2)
    then show ?thesis using cache_check_fields try_dispatch_facts(1)
      by (fastforce simp: final_state_def)
  qed
next
  show "\<exists>ds. dispatched (final_state (attempt env st r)) = dispatched st @ ds \<and> length ds \<le> 1
        \<and> (\<forall>d \<in> set ds. fixed_sampling (data d))"
  proof (cases rule: attempt_cases [of env st r])
    case (hit c st1)
    then have "dispatched (final_state (attempt env st r)) = dispatched st @ []"
      using cache_check_fields by (fastforce simp: final_state_def)
    then show ?thesis by force
  next
    case (none st1)
    then have "dispatched (final_state (attempt env st r)) = dispatched st @ []"
      using cache_check_fields by (fastforce simp: final_state_def)
    then show ?thesis by force
  next
    case (sent st1 p resp st2)
    then have "dispatched st1 = dispatched st" using cache_check_fields by fastforce
    with sent try_dispatch_facts(2) [OF sent(3)] show ?thesis by (simp add: final_state_def)
  next
    case (failed st1 p e st2)
    then have "dispatched st1 = dispatched st" using cache_check_fields by fastforce
    with failed try_dispatch_facts(2) [OF failed(3)] show ?thesis by (simp add: final_state_def)
  qed
qed

lemma sendRequest_trace:
  "invocations (snd (sendRequest env st r)) = invocations st @ [r] \<or>
   invocations (snd (sendRequest env st r)) = invocations st @ [r, r\<lparr>provider := None\<rparr>]"
  "\<exists>ds. dispatched (snd (sendRequest env st r)) = dispatched st @ ds \<and> length ds \<le> 2
        \<and> (\<forall>d \<in> set ds. fixed_sampling (data d))"
proof -
  let ?r' = "r\<lparr>provider := None\<rparr>"
  have one: "invocations (final_state (attempt env st r)) = invocations st @ [r]"
    by (rule attempt_trace(1))
  obtain ds where ds: "dispatched (final_state (attempt env st r)) = dispatched st @ ds"
      "length ds \<le> 1" "\<forall>d \<in> set ds. fixed_sampling (data d)"
    using attempt_trace(2) [of env st r] by blast
  show "invocations (snd (sendRequest env st r)) = invocations st @ [r] \<or>
   invocations (snd (sendRequest env st r)) = invocations st @ [r, ?r']"
  proof (cases "attempt env st r")
    case (Done x)
    with one show ?thesis by (simp add: sendRequest_two_attempts final_state_def)
  next
    case (Caught e st2)
    with one have st2: "invocations st2 = invocations st @ [r]" by (simp add: final_state_def)
    have two: "invocations (final_state (attempt env st2 ?r')) = invocations st2 @ [?r']"
      by (rule attempt_trace(1))
    from Caught st2 two show ?thesis
      by (cases "attempt env st2 ?r'") (simp_all add: sendRequest_two_attempts final_state_def)
  qed
  show "\<exists>ds. dispatched (snd (sendRequest env st r)) = dispatched st @ ds \<and> length ds \<le> 2
        \<and> (\<forall>d \<in> set ds. fixed_sampling (data d))"
  proof (cases "attempt env st r")
    case (Done x)
    with ds have "dispatched (snd (sendRequest env st r)) = dispatched st @ ds"
      by (simp add: sendRequest_two_attempts final_state_def)
    with ds show ?thesis by force
  next
    case (Caught e st2)
    with ds have st2: "dispatched st2 = dispatched st @ ds" by (simp add: final_state_def)
    obtain es where es: "dispatched (final_state (attempt env st2 ?r')) = dispatched st2 @ es"
        "length es \<le> 1" "\<forall>d \<in> set es. fixed_sampling (data d)"
      using attempt_trace(2) [of env st2 ?r'] by blast
    have "dispatched (snd (sendRequest env st r)) = dispatched st @ ds \<or>
          dispatched (snd (sendRequest env st r)) = dispatched st @ (ds @ es)"
      using Caught st2 es(1)
      by (cases "attempt env st2 ?r'") (simp_all add: sendRequest_two_attempts final_state_def)
    then show ?thesis
    proof
      assume "dispatched (snd (sendRequest env st r)) = dispatched st @ ds"
      with ds show ?thesis by force
    next
      assume a: "dispatched (snd (sendRequest env st r)) = dispatched st @ (ds @ es)"
      have "length (ds @ es) \<le> 2" using ds(2) es(2) by simp
      moreover have "\<forall>d \<in> set (ds @ es). fixed_sampling (data d)" using ds(3) es(3) by auto
      ultimately show ?thesis using a by blast
    qed
  qed
qed

section \<open>Evaluation of the examples\<close>

lemmas model_defs =
  cache_check_def is_streaming_def createCacheKey_def str_or_def num_or_def truthy_str_def
  getBestProvider_def getAvailableProviders_def Object_values_def has_key_def by_priority_def
  LLM_PROVIDERS_def model_or_first_def of_string_option_def message_of_def
  try_dispatch_def send_standard_def send_streaming_def request_headers_def
  formatPromptForProvider_def extractResponseFromProvider_def choices_content_def
  content_text_def extractTokenUsage_def extractTokenUsage_try_def usage_field_def
  dot_def at0_def opt_dot_def and_then_def js_or_def cannot_read_def Let_def
  CACHE_DURATION_def NO_PROVIDER_def COMMUNICATION_ERROR_def

lemma example_env_fields:
  "penv example_env = example_keys"
  "axios_post example_env k call = Inr (reply_to ''a\<newline>\<newline>b\<newline>c'' call)"
  "axios_post_stream example_env k call = Inr example_chunks"
  "Date_now example_env k = 1000 * int k"
  "ToString example_env = example_ToString"
  "JSON_parse example_env = example_JSON_parse"
  by (simp_all add: example_env_def)

lemma flaky_env_fields:
  "penv flaky_env = example_keys"
  "axios_post flaky_env k call =
     (if k = 0 then Inl (Error ''timeout of 1000ms exceeded'')
      else Inr (reply_to ''a\<newline>\<newline>b\<newline>c'' call))"
  "axios_post_stream flaky_env k call = Inr example_chunks"
  "Date_now flaky_env k = 1000 * int k"
  "ToString flaky_env = example_ToString"
  "JSON_parse flaky_env = example_JSON_parse"
  by (simp_all add: flaky_env_def example_env_def)

lemma failing_env_fields:
  "penv failing_env = example_keys"
  "axios_post failing_env k call = Inl (Error ''Network Error'')"
  "axios_post_stream failing_env k call = Inr example_chunks"
  "Date_now failing_env k = 1000 * int k"
  "ToString failing_env = example_ToString"
  "JSON_parse failing_env = example_JSON_parse"
  by (simp_all add: failing_env_def example_env_def)

lemmas example_defs =
  example_env_fields flaky_env_fields failing_env_fields
  example_keys_def initial_state_def example_request_def
  reply_to_def openai_body_def claude_body_def example_ToString_def

section \<open>Failure handling\<close>

text \<open>
  Claim C3. When the dispatch of a request that names a provider throws (a rejection of
  the transport or an exception of an adapter), \<open>sendRequest\<close> calls itself once with
  the provider cleared, and that call does not call again; when the dispatch of a request
  that names no provider throws, there is no further call and the caller gets an error
  whose message is the communication prefix followed by the message of the exception.
  In every case \<open>sendRequest\<close> is entered once or twice (with the request, then with
  the request without provider), and at most two calls go to the transport.
\<close>

theorem sendRequest_retries_once:
  "(cache_check env (st\<lparr>invocations := invocations st @ [r]\<rparr>) r = (None, st1)
    \<and> getBestProvider (LLM_PROVIDERS (penv env)) (provider r) = Some p
    \<and> try_dispatch env st1 r p (model_or_first (model r) p) = (Inl e, st2) \<longrightarrow>
      (truthy_str (provider r) \<longrightarrow>
         sendRequest env st r = sendRequest env st2 (r\<lparr>provider := None\<rparr>)
         \<and> invocations (snd (sendRequest env st r)) = invocations st @ [r, r\<lparr>provider := None\<rparr>])
      \<and> (\<not> truthy_str (provider r) \<longrightarrow>
         sendRequest env st r = (Inl (Error (COMMUNICATION_ERROR @ message e)), st2)
         \<and> invocations st2 = invocations st @ [r]))
   \<and> (invocations (snd (sendRequest env st r)) = invocations st @ [r] \<or>
      invocations (snd (sendRequest env st r)) = invocations st @ [r, r\<lparr>provider := None\<rparr>])
   \<and> length (dispatched (snd (sendRequest env st r))) \<le> length (dispatched st) + 2"
proof (intro conjI impI)
  assume a: "cache_check env (st\<lparr>invocations := invocations st @ [r]\<rparr>) r = (None, st1)
    \<and> getBestProvider (LLM_PROVIDERS (penv env)) (provider r) = Some p
    \<and> try_dispatch env st1 r p (model_or_first (model r) p) = (Inl e, st2)"
  then have att: "attempt env st r = Caught e st2" by (simp add: attempt_def)
  have inv2: "invocations st2 = invocations st @ [r]"
    using attempt_trace(1) [of env st r] att by (simp add: final_state_def)
  {
    assume t: "truthy_str (provider r)"
    from att t show "sendRequest env st r = sendRequest env st2 (r\<lparr>provider := None\<rparr>)"
      by (subst sendRequest_attempt) simp
    have "\<not> truthy_str (provider (r\<lparr>provider := None\<rparr>))" by (simp add: truthy_str_def)
    have "invocations (final_state (attempt env st2 (r\<lparr>provider := None\<rparr>))) =
            invocations st2 @ [r\<lparr>provider := None\<rparr>]"
      by (rule attempt_trace(1))
    with att t inv2
    show "invocations (snd (sendRequest env st r)) = invocations st @ [r, r\<lparr>provider := None\<rparr>]"
      by (cases "attempt env st2 (r\<lparr>provider := None\<rparr>)")
         (simp_all add: sendRequest_two_attempts final_state_def)
  }
  {
    assume t: "\<not> truthy_str (provider r)"
    from att t show "sendRequest env st r = (Inl (Error (COMMUNICATION_ERROR @ message e)), st2)"
      by (subst sendRequest_attempt) simp
    show "invocations st2 = invocations st @ [r]" by (rule inv2)
  }
next
  show "invocations (snd (sendRequest env st r)) = invocations st @ [r] \<or>
      invocations (snd (sendRequest env st r)) = invocations st @ [r, r\<lparr>provider := None\<rparr>]"
    by (rule sendRequest_trace(1))
next
  obtain ds where "dispatched (snd (sendRequest env st r)) = dispatched st @ ds" "length ds \<le> 2"
    using sendRequest_trace(2) [of env st r] by blast
  then show "length (dispatched (snd (sendRequest env st r))) \<le> length (dispatched st) + 2"
    by simp
qed

theorem sendRequest_retries_once_witness:
  "truthy_str (provider example_request)
   \<and> try_dispatch flaky_env (initial_state\<lparr>invocations := [example_request]\<rparr>) example_request
        (the (map_of (LLM_PROVIDERS example_keys) ''deepseek'')) (Some ''deepseek-chat'') =
      (Inl (Error ''timeout of 1000ms exceeded''),
       snd (try_dispatch flaky_env (initial_state\<lparr>invocations := [example_request]\<rparr>)
              example_request (the (map_of (LLM_PROVIDERS example_keys) ''deepseek''))
              (Some ''deepseek-chat'')))
   \<and> invocations (snd (sendRequest flaky_env initial_state example_request)) =
        [example_request, example_request\<lparr>provider := None\<rparr>]
   \<and> fst (sendRequest failing_env initial_state (example_request\<lparr>provider := None\<rparr>)) =
        Inl (Error (COMMUNICATION_ERROR @ ''Network Error''))"
  using sendRequest_retries_once [of flaky_env initial_state example_request
      "initial_state\<lparr>invocations := [example_request]\<rparr>"
      "the (map_of (LLM_PROVIDERS example_keys) ''deepseek'')"
      "Error ''timeout of 1000ms exceeded''"
      "snd (try_dispatch flaky_env (initial_state\<lparr>invocations := [example_request]\<rparr>)
              example_request (the (map_of (LLM_PROVIDERS example_keys) ''deepseek''))
              (Some ''deepseek-chat''))"]
    sendRequest_retries_once [of failing_env initial_state "example_request\<lparr>provider := None\<rparr>"
      "initial_state\<lparr>invocations := [example_request\<lparr>provider := None\<rparr>]\<rparr>"
      "the (map_of (LLM_PROVIDERS example_keys) ''claude'')"
      "Error ''Network Error''"
      "snd (try_dispatch failing_env
              (initial_state\<lparr>invocations := [example_request\<lparr>provider := None\<rparr>]\<rparr>)
              (example_request\<lparr>provider := None\<rparr>)
              (the (map_of (LLM_PROVIDERS example_keys) ''claude''))
              (Some ''claude-3-5-sonnet''))"]
  by (simp add: sendRequest.simps model_defs example_defs)

section \<open>The request body\<close>

lemma send_streaming_dispatched:
  "dispatched (snd (send_streaming env st p body m)) =
     dispatched st @ [\<lparr>url = apiEndpoint p, data = with_stream body,
                       headers = request_headers p, responseType = Some ''stream''\<rparr>]"
  by (simp add: send_streaming_def Let_def split: sum.splits)

lemma send_standard_dispatched:
  "dispatched (snd (send_standard env st r p body m)) =
     dispatched st @ [\<lparr>url = apiEndpoint p, data = body,
                       headers = request_headers p, responseType = None\<rparr>]"
  by (simp add: send_standard_def Let_def split: sum.splits)

lemma try_dispatch_dispatched:
  "dispatched (snd (try_dispatch env st r p m)) =
     (case formatPromptForProvider p (prompt r) m of
        Inl e \<Rightarrow> dispatched st
      | Inr body \<Rightarrow>
          if is_streaming r \<and> streamingSupport p \<and> onStreamingUpdate r
          then dispatched st @ [\<lparr>url = apiEndpoint p, data = with_stream body,
                       headers = request_headers p, responseType = Some ''stream''\<rparr>]
          else dispatched st @ [\<lparr>url = apiEndpoint p, data = body,
                       headers = request_headers p, responseType = None\<rparr>])"
  by (auto simp: try_dispatch_def send_streaming_dispatched send_standard_dispatched
      split: sum.splits)

text \<open>
  Claim C10. The body that \<open>formatPromptForProvider\<close> builds has \<open>max_tokens\<close> 1000
  and \<open>temperature\<close> 0.7, for every provider (a body is built for each provider of the
  registry), prompt and model; so has every body that \<open>sendRequest\<close> hands to the
  transport, whatever \<open>maxTokens\<close> and \<open>temperature\<close> the request carries; and
  changing these two fields of a request changes nothing in what one dispatch sends.
  They enter \<open>createCacheKey\<close> only.
\<close>

theorem request_body_sampling_fixed:
  "(formatPromptForProvider p pr m = Inr body \<longrightarrow>
      named body ''max_tokens'' = Num 1000 \<and> named body ''temperature'' = Num (7 / 10))
   \<and> (q \<in> set (Object_values (LLM_PROVIDERS pe)) \<longrightarrow>
        (\<exists>body. formatPromptForProvider q pr m = Inr body))
   \<and> (\<exists>ds. dispatched (snd (sendRequest env st r)) = dispatched st @ ds
          \<and> (\<forall>d \<in> set ds. named (data d) ''max_tokens'' = Num 1000
                           \<and> named (data d) ''temperature'' = Num (7 / 10)))
   \<and> dispatched (snd (try_dispatch env st (r\<lparr>maxTokens := a, temperature := b\<rparr>) cfg sm)) =
       dispatched (snd (try_dispatch env st r cfg sm))"
proof -
  have c1: "formatPromptForProvider p pr m = Inr body \<longrightarrow>
      named body ''max_tokens'' = Num 1000 \<and> named body ''temperature'' = Num (7 / 10)"
    using formatPromptForProvider_fixed by (auto simp: fixed_sampling_def)
  have "q \<in> set (Object_values (LLM_PROVIDERS pe)) \<Longrightarrow>
        name q = ''OpenAI'' \<or> name q = ''Claude'' \<or> name q = ''DeepSeek''"
    by (auto simp: LLM_PROVIDERS_def Object_values_def)
  then have c2: "q \<in> set (Object_values (LLM_PROVIDERS pe)) \<longrightarrow>
        (\<exists>body. formatPromptForProvider q pr m = Inr body)"
    using formatPromptForProvider_known by blast
  have c3: "\<exists>ds. dispatched (snd (sendRequest env st r)) = dispatched st @ ds
          \<and> (\<forall>d \<in> set ds. named (data d) ''max_tokens'' = Num 1000
                           \<and> named (data d) ''temperature'' = Num (7 / 10))"
    using sendRequest_trace(2) [of env st r] by (auto simp: fixed_sampling_def)
  have c4: "dispatched (snd (try_dispatch env st (r\<lparr>maxTokens := a, temperature := b\<rparr>) cfg sm)) =
       dispatched (snd (try_dispatch env st r cfg sm))"
    by (simp add: try_dispatch_dispatched is_streaming_def split: sum.splits)
  from c1 c2 c3 c4 show ?thesis by blast
qed

theorem request_body_sampling_fixed_witness:
  "(\<exists>body. formatPromptForProvider (the (map_of (LLM_PROVIDERS example_keys) ''claude''))
              ''rates'' (Some ''claude-3-5-sonnet'') = Inr body
           \<and> named body ''max_tokens'' = Num 1000 \<and> named body ''temperature'' = Num (7 / 10))
   \<and> map (\<lambda>d. (named (data d) ''max_tokens'', named (data d) ''temperature''))
        (dispatched (snd (sendRequest example_env initial_state
           (example_request\<lparr>maxTokens := Some 50, temperature := Some (1 / 5)\<rparr>)))) =
       [(Num 1000, Num (7 / 10))]
   \<and> createCacheKey example_env
         (example_request\<lparr>maxTokens := Some 50, temperature := Some (1 / 5)\<rparr>) =
       ''deepseek-default-50-0.2-rates''"
  using request_body_sampling_fixed [of "the (map_of (LLM_PROVIDERS example_keys) ''claude'')"
      "''rates''" "Some ''claude-3-5-sonnet''"
      "Obj [(''model'', Str ''claude-3-5-sonnet''),
            (''messages'', Arr [message_of ''user'' ''rates'']),
            (''max_tokens'', Num 1000),
            (''temperature'', Num (7 / 10)),
            (''system'', Str SYSTEM_INSTRUCTION)]"
      "the (map_of (LLM_PROVIDERS example_keys) ''claude'')" example_keys
      example_env initial_state
      "example_request\<lparr>maxTokens := Some 50, temperature := Some (1 / 5)\<rparr>"]
  by (simp add: sendRequest.simps model_defs example_defs)

section \<open>Insights\<close>





section \<open>Streaming\<close>

lemma send_streaming_listeners:
  "send_streaming env st p body m = (Inr resp, st') \<Longrightarrow>
   \<exists>chunks. axios_post_stream env (length (dispatched st))
       \<lparr>url = apiEndpoint p, data = with_stream body, headers = request_headers p,
        responseType = Some ''stream''\<rparr> = Inr chunks
     \<and> listeners st' = listeners st @ [(p, chunks)]"
  by (auto simp: send_streaming_def Let_def split: sum.splits)

lemma try_dispatch_streaming:
  assumes "is_streaming r" "streamingSupport p" "onStreamingUpdate r"
    and "try_dispatch env st r p m = (Inr resp, st')"
  shows "resp = \<lparr>response_text = Str [], response_provider = name p,
                  response_model = m, tokenUsage = None\<rparr>"
    and "responseCache st' = responseCache st"
    and "\<exists>chunks. listeners st' = listeners st @ [(p, chunks)]"
proof -
  from assms obtain body where b: "formatPromptForProvider p (prompt r) m = Inr body"
      "send_streaming env st p body m = (Inr resp, st')"
    by (auto simp: try_dispatch_def split: sum.splits)
  from send_streaming_facts [OF b(2)]
  show "resp = \<lparr>response_text = Str [], response_provider = name p,
                  response_model = m, tokenUsage = None\<rparr>"
    and "responseCache st' = responseCache st" by auto
  from send_streaming_listeners [OF b(2)]
  show "\<exists>chunks. listeners st' = listeners st @ [(p, chunks)]" by blast
qed

lemma sendRequest_first_attempt:
  assumes "cache_check env (st\<lparr>invocations := invocations st @ [r]\<rparr>) r = (None, st1)"
    and "getBestProvider (LLM_PROVIDERS (penv env)) (provider r) = Some p"
    and "try_dispatch env st1 r p (model_or_first (model r) p) = (Inr resp, st')"
  shows "sendRequest env st r = (Inr resp, st')"
  using assms by (subst sendRequest_attempt) (simp add: attempt_def)

text \<open>
  Claim C4, amended. When a request is dispatched as a stream (\<open>streaming\<close> is true, the
  selected provider supports streaming, a callback is supplied) and the transport call
  resolves, the response that \<open>sendRequest\<close> returns has the empty string as its text:
  the accumulator is read when the handler has just been registered, and the text
  accumulated later reaches the caller only through \<open>onStreamingUpdate\<close>. The response
  names the provider and the selected model, carries no \<open>tokenUsage\<close>, and nothing is
  written to the cache.
\<close>

theorem streaming_dispatch_returns_placeholder:
  assumes "is_streaming r" and "onStreamingUpdate r"
    and "getBestProvider (LLM_PROVIDERS (penv env)) (provider r) = Some p"
    and "streamingSupport p"
    and "try_dispatch env (st\<lparr>invocations := invocations st @ [r]\<rparr>) r p
           (model_or_first (model r) p) = (Inr resp, st')"
  shows "sendRequest env st r = (Inr resp, st')
       \<and> resp = \<lparr>response_text = Str [], response_provider = name p,
                  response_model = model_or_first (model r) p, tokenUsage = None\<rparr>
       \<and> responseCache st' = responseCache st
       \<and> (\<exists>chunks. listeners st' = listeners st @ [(p, chunks)])"
proof -
  let ?st1 = "st\<lparr>invocations := invocations st @ [r]\<rparr>"
  from assms(1) have cc: "cache_check env ?st1 r = (None, ?st1)"
    by (rule cache_check_streaming)
  from cc assms(3,5) have "sendRequest env st r = (Inr resp, st')"
    by (rule sendRequest_first_attempt)
  moreover note try_dispatch_streaming [OF assms(1) assms(4) assms(2) assms(5)]
  ultimately show ?thesis by simp
qed

theorem streaming_dispatch_returns_placeholder_witness:
  "sendRequest example_env initial_state streaming_request =
     (Inr \<lparr>response_text = Str [], response_provider = ''Claude'',
           response_model = Some ''claude-3-5-sonnet'', tokenUsage = None\<rparr>,
      snd (try_dispatch example_env (initial_state\<lparr>invocations := [streaming_request]\<rparr>)
             streaming_request (the (map_of (LLM_PROVIDERS example_keys) ''claude''))
             (Some ''claude-3-5-sonnet'')))
   \<and> responseCache (snd (sendRequest example_env initial_state streaming_request)) = Map.empty"
  using streaming_dispatch_returns_placeholder [of streaming_request example_env
      "the (map_of (LLM_PROVIDERS example_keys) ''claude'')" initial_state
      "\<lparr>response_text = Str [], response_provider = ''Claude'',
           response_model = Some ''claude-3-5-sonnet'', tokenUsage = None\<rparr>"
      "snd (try_dispatch example_env (initial_state\<lparr>invocations := [streaming_request]\<rparr>)
             streaming_request (the (map_of (LLM_PROVIDERS example_keys) ''claude''))
             (Some ''claude-3-5-sonnet''))"]
  by (simp add: sendRequest.simps model_defs example_defs streaming_request_def)

text \<open>The claim as stated fails: the stream of the example accumulates \<open>Hello world\<close>,
  and the response returned for it has the empty text.\<close>

lemma stream_result_example:
  "stream_result example_env (the (map_of (LLM_PROVIDERS example_keys) ''claude'')) example_chunks =
     (''Hello world'', [''Hello'', ''Hello world''])"
  by code_simp

theorem streaming_text_counterexample:
  "is_streaming streaming_request \<and> onStreamingUpdate streaming_request
   \<and> getBestProvider (LLM_PROVIDERS (penv example_env)) (provider streaming_request) =
        map_of (LLM_PROVIDERS example_keys) ''claude''
   \<and> streamingSupport (the (map_of (LLM_PROVIDERS example_keys) ''claude''))
   \<and> fst (sendRequest example_env initial_state streaming_request) =
        Inr \<lparr>response_text = Str [], response_provider = ''Claude'',
             response_model = Some ''claude-3-5-sonnet'', tokenUsage = None\<rparr>
   \<and> listeners (snd (sendRequest example_env initial_state streaming_request)) =
        [(the (map_of (LLM_PROVIDERS example_keys) ''claude''), example_chunks)]
   \<and> fst (stream_result example_env (the (map_of (LLM_PROVIDERS example_keys) ''claude''))
            example_chunks) = ''Hello world''
   \<and> response_text (projr (fst (sendRequest example_env initial_state streaming_request))) \<noteq>
        Str (fst (stream_result example_env
                    (the (map_of (LLM_PROVIDERS example_keys) ''claude'')) example_chunks))"
  by (simp add: stream_result_example)
     (simp add: sendRequest.simps model_defs example_defs streaming_request_def)

section \<open>Streaming requests and the cache\<close>







lemma sendRequest_dispatched_extends:
  "\<exists>es. dispatched (snd (sendRequest env st r)) =
          dispatched (final_state (attempt env st r)) @ es"
proof (cases "attempt env st r")
  case (Done x)
  then have "dispatched (snd (sendRequest env st r)) =
          dispatched (final_state (attempt env st r)) @ []"
    by (simp add: sendRequest_two_attempts final_state_def)
  then show ?thesis by blast
next
  case (Caught e st2)
  let ?r' = "r\<lparr>provider := None\<rparr>"
  obtain es where es: "dispatched (final_state (attempt env st2 ?r')) = dispatched st2 @ es"
    using attempt_trace(2) [of env st2 ?r'] by blast
  have "dispatched (snd (sendRequest env st r)) = dispatched st2 @ [] \<or>
        dispatched (snd (sendRequest env st r)) = dispatched st2 @ es"
    using Caught es
    by (cases "attempt env st2 ?r'") (simp_all add: sendRequest_two_attempts final_state_def)
  with Caught show ?thesis by (auto simp: final_state_def)
qed



lemma getBestProvider_available:
  "getBestProvider reg x = Some p \<Longrightarrow> p \<in> set (getAvailableProviders reg)"
  by (drule getBestProvider_mem)
     (simp add: getAvailableProviders_def set_Array_sort has_key_def)






section \<open>The response cache\<close>

lemma createCacheKey_components:
  "str_or (provider r1) ''auto'' = str_or (provider r2) ''auto'' \<Longrightarrow>
   str_or (model r1) ''default'' = str_or (model r2) ''default'' \<Longrightarrow>
   num_or (maxTokens r1) 0 = num_or (maxTokens r2) 0 \<Longrightarrow>
   num_or (temperature r1) (7 / 10) = num_or (temperature r2) (7 / 10) \<Longrightarrow>
   prompt r1 = prompt r2 \<Longrightarrow>
   createCacheKey env r1 = createCacheKey env r2"
  by (simp add: createCacheKey_def)

lemma cache_check_hit:
  "\<not> is_streaming r \<Longrightarrow> responseCache st (createCacheKey env r) = Some item \<Longrightarrow>
   Date_now env (clock_reads st) - timestamp item < CACHE_DURATION \<Longrightarrow>
   cache_check env st r = (Some (response item), st\<lparr>clock_reads := Suc (clock_reads st)\<rparr>)"
  by (simp add: cache_check_def)

lemma cache_check_expired:
  "\<not> is_streaming r \<Longrightarrow> responseCache st (createCacheKey env r) = Some item \<Longrightarrow>
   \<not> Date_now env (clock_reads st) - timestamp item < CACHE_DURATION \<Longrightarrow>
   cache_check env st r = (None, st\<lparr>clock_reads := Suc (clock_reads st)\<rparr>)"
  by (simp add: cache_check_def)

lemma try_dispatch_standard_stores:
  assumes "\<not> is_streaming r" "try_dispatch env sa r p m = (Inr resp, st1)"
  shows "responseCache st1 = (responseCache sa)(createCacheKey env r \<mapsto>
            \<lparr>response = resp, timestamp = Date_now env (clock_reads sa)\<rparr>)"
    and "clock_reads st1 = Suc (clock_reads sa)"
proof -
  from assms obtain body where "send_standard env sa r p body m = (Inr resp, st1)"
    by (auto simp: try_dispatch_def split: sum.splits)
  from send_standard_facts [OF this]
  show "responseCache st1 = (responseCache sa)(createCacheKey env r \<mapsto>
            \<lparr>response = resp, timestamp = Date_now env (clock_reads sa)\<rparr>)"
    and "clock_reads st1 = Suc (clock_reads sa)" by simp_all
qed

lemma getBestProvider_some_any:
  assumes "getBestProvider reg x = Some p"
  shows "\<exists>q. getBestProvider reg y = Some q"
proof -
  from assms have "p \<in> set (getAvailableProviders reg)" by (rule getBestProvider_available)
  then have "Array_sort by_priority (filter has_key (Object_values reg)) \<noteq> []"
    by (auto simp: getAvailableProviders_def)
  then show ?thesis
    by (auto simp: getBestProvider_def Let_def split: option.splits list.splits)
qed

lemma attempt_miss_dispatches:
  assumes "cache_check env (st\<lparr>invocations := invocations st @ [r]\<rparr>) r = (None, s1)"
    and "getBestProvider (LLM_PROVIDERS (penv env)) (provider r) = Some p"
  shows "length (dispatched (final_state (attempt env st r))) = Suc (length (dispatched st))"
proof -
  let ?m = "model_or_first (model r) p"
  from assms(2) have "name p = ''OpenAI'' \<or> name p = ''Claude'' \<or> name p = ''DeepSeek''"
    by (rule getBestProvider_known)
  then obtain body where "formatPromptForProvider p (prompt r) ?m = Inr body"
    using formatPromptForProvider_known by blast
  moreover from assms(1) have "dispatched s1 = dispatched st"
    using cache_check_fields by fastforce
  ultimately have "length (dispatched (snd (try_dispatch env s1 r p ?m))) = Suc (length (dispatched st))"
    by (simp add: try_dispatch_dispatched)
  moreover have "final_state (attempt env st r) = snd (try_dispatch env s1 r p ?m)"
    using assms by (simp add: attempt_def final_state_def split: prod.splits sum.splits)
  ultimately show ?thesis by simp
qed

text \<open>
  Claim C2, amended. Let R1 and R2 be requests that are not streaming and agree on
  provider (or \<open>auto\<close>), model (or \<open>default\<close>), \<open>maxTokens\<close> (or 0),
  \<open>temperature\<close> (or 0.7) and prompt. If R1 misses the cache, is dispatched and succeeds
  at its first attempt, storing its response at time \<open>t\<close>, and R2 is submitted next, then:
  when the clock read by R2 is less than 30 minutes after \<open>t\<close>, R2 returns exactly the
  response of R1 and nothing goes to the transport; otherwise R2 dispatches again and,
  when its first attempt succeeds, stores a fresh entry under the same fingerprint.
\<close>

theorem cache_hit_within_ttl:
  assumes "\<not> is_streaming r1" and "\<not> is_streaming r2"
    and "str_or (provider r1) ''auto'' = str_or (provider r2) ''auto''"
    and "str_or (model r1) ''default'' = str_or (model r2) ''default''"
    and "num_or (maxTokens r1) 0 = num_or (maxTokens r2) 0"
    and "num_or (temperature r1) (7 / 10) = num_or (temperature r2) (7 / 10)"
    and "prompt r1 = prompt r2"
    and "cache_check env (st\<lparr>invocations := invocations st @ [r1]\<rparr>) r1 = (None, sa)"
    and "getBestProvider (LLM_PROVIDERS (penv env)) (provider r1) = Some p"
    and "try_dispatch env sa r1 p (model_or_first (model r1) p) = (Inr resp, st1)"
  shows "sendRequest env st r1 = (Inr resp, st1)
     \<and> (Date_now env (clock_reads st1) - Date_now env (clock_reads sa) < CACHE_DURATION \<longrightarrow>
          sendRequest env st1 r2 =
            (Inr resp, st1\<lparr>invocations := invocations st1 @ [r2],
                           clock_reads := Suc (clock_reads st1)\<rparr>))
     \<and> (\<not> Date_now env (clock_reads st1) - Date_now env (clock_reads sa) < CACHE_DURATION \<longrightarrow>
          length (dispatched st1) < length (dispatched (snd (sendRequest env st1 r2)))
          \<and> (\<forall>q resp2 st2.
                getBestProvider (LLM_PROVIDERS (penv env)) (provider r2) = Some q
                \<and> try_dispatch env (st1\<lparr>invocations := invocations st1 @ [r2],
                                         clock_reads := Suc (clock_reads st1)\<rparr>) r2 q
                     (model_or_first (model r2) q) = (Inr resp2, st2) \<longrightarrow>
                sendRequest env st1 r2 = (Inr resp2, st2)
                \<and> responseCache st2 (createCacheKey env r2) =
                    Some \<lparr>response = resp2, timestamp = Date_now env (Suc (clock_reads st1))\<rparr>))"
proof -
  let ?item = "\<lparr>response = resp, timestamp = Date_now env (clock_reads sa)\<rparr>"
  let ?s1 = "st1\<lparr>invocations := invocations st1 @ [r2]\<rparr>"
  let ?s2 = "st1\<lparr>invocations := invocations st1 @ [r2], clock_reads := Suc (clock_reads st1)\<rparr>"
  have key: "createCacheKey env r1 = createCacheKey env r2"
    using assms(3-7) by (rule createCacheKey_components)
  have first: "sendRequest env st r1 = (Inr resp, st1)"
    using assms(8-10) by (rule sendRequest_first_attempt)
  have stored: "responseCache ?s1 (createCacheKey env r2) = Some ?item"
    using try_dispatch_standard_stores(1) [OF assms(1) assms(10)] key by simp
  have hit: "sendRequest env st1 r2 = (Inr resp, ?s2)"
    if "Date_now env (clock_reads st1) - Date_now env (clock_reads sa) < CACHE_DURATION"
  proof -
    from that have "cache_check env ?s1 r2 = (Some (response ?item), ?s1\<lparr>clock_reads := Suc (clock_reads ?s1)\<rparr>)"
      using cache_check_hit [OF assms(2) stored] by simp
    then show ?thesis
      by (subst sendRequest_attempt) (simp add: attempt_def)
  qed
  have miss: "length (dispatched st1) < length (dispatched (snd (sendRequest env st1 r2)))
          \<and> (\<forall>q resp2 st2.
                getBestProvider (LLM_PROVIDERS (penv env)) (provider r2) = Some q
                \<and> try_dispatch env ?s2 r2 q (model_or_first (model r2) q) = (Inr resp2, st2) \<longrightarrow>
                sendRequest env st1 r2 = (Inr resp2, st2)
                \<and> responseCache st2 (createCacheKey env r2) =
                    Some \<lparr>response = resp2, timestamp = Date_now env (Suc (clock_reads st1))\<rparr>)"
    if "\<not> Date_now env (clock_reads st1) - Date_now env (clock_reads sa) < CACHE_DURATION"
  proof -
    from that have cc: "cache_check env ?s1 r2 = (None, ?s2)"
      using cache_check_expired [OF assms(2) stored] by simp
    obtain q where q: "getBestProvider (LLM_PROVIDERS (penv env)) (provider r2) = Some q"
      using getBestProvider_some_any [OF assms(9)] by blast
    have "length (dispatched (final_state (attempt env st1 r2))) = Suc (length (dispatched st1))"
      using cc q by (rule attempt_miss_dispatches)
    moreover obtain es where "dispatched (snd (sendRequest env st1 r2)) =
          dispatched (final_state (attempt env st1 r2)) @ es"
      using sendRequest_dispatched_extends by blast
    ultimately have d: "length (dispatched st1) < length (dispatched (snd (sendRequest env st1 r2)))"
      by simp
    have "sendRequest env st1 r2 = (Inr resp2, st2)
          \<and> responseCache st2 (createCacheKey env r2) =
              Some \<lparr>response = resp2, timestamp = Date_now env (Suc (clock_reads st1))\<rparr>"
      if h: "getBestProvider (LLM_PROVIDERS (penv env)) (provider r2) = Some q'
             \<and> try_dispatch env ?s2 r2 q' (model_or_first (model r2) q') = (Inr resp2, st2)"
      for q' resp2 st2
    proof -
      from h have g: "getBestProvider (LLM_PROVIDERS (penv env)) (provider r2) = Some q'"
        and td: "try_dispatch env ?s2 r2 q' (model_or_first (model r2) q') = (Inr resp2, st2)"
        by simp_all
      from cc g td have "sendRequest env st1 r2 = (Inr resp2, st2)"
        by (rule sendRequest_first_attempt)
      moreover from try_dispatch_standard_stores(1) [OF assms(2) td]
      have "responseCache st2 (createCacheKey env r2) =
              Some \<lparr>response = resp2, timestamp = Date_now env (Suc (clock_reads st1))\<rparr>"
        by simp
      ultimately show ?thesis by simp
    qed
    with d show ?thesis by blast
  qed
  from first hit miss show ?thesis by blast
qed

lemma slow_clock_env_fields:
  "penv slow_clock_env = example_keys"
  "axios_post slow_clock_env k call = Inr (reply_to ''a\<newline>\<newline>b\<newline>c'' call)"
  "Date_now slow_clock_env k = CACHE_DURATION * int k"
  "ToString slow_clock_env = example_ToString"
  by (simp_all add: slow_clock_env_def example_env_def)

theorem cache_hit_within_ttl_witness:
  "\<not> is_streaming example_request
   \<and> sendRequest example_env initial_state example_request = (Inr deepseek_response, after_first)
   \<and> Date_now example_env (clock_reads after_first) - Date_now example_env 0 < CACHE_DURATION
   \<and> sendRequest example_env after_first example_request =
        (Inr deepseek_response,
         after_first\<lparr>invocations := invocations after_first @ [example_request],
                      clock_reads := Suc (clock_reads after_first)\<rparr>)
   \<and> sendRequest slow_clock_env initial_state example_request = (Inr deepseek_response, after_slow)
   \<and> \<not> Date_now slow_clock_env (clock_reads after_slow) - Date_now slow_clock_env 0 < CACHE_DURATION
   \<and> length (dispatched after_slow) <
       length (dispatched (snd (sendRequest slow_clock_env after_slow example_request)))"
proof -
  let ?r = example_request
  let ?sa = "initial_state\<lparr>invocations := invocations initial_state @ [?r]\<rparr>"
  let ?p = "the (map_of (LLM_PROVIDERS example_keys) ''deepseek'')"
  have n: "\<not> is_streaming ?r" by (simp add: is_streaming_def example_request_def)
  have c1: "cache_check example_env ?sa ?r = (None, ?sa)"
    by (simp add: model_defs example_defs)
  have g1: "getBestProvider (LLM_PROVIDERS (penv example_env)) (provider ?r) = Some ?p"
    by (simp add: model_defs example_defs)
  have t1: "try_dispatch example_env ?sa ?r ?p (model_or_first (model ?r) ?p) =
              (Inr deepseek_response, after_first)"
    by (simp add: after_first_def deepseek_response_def sendRequest.simps model_defs example_defs)
  have k1: "clock_reads after_first = 1" "clock_reads ?sa = 0"
    by (simp_all add: after_first_def sendRequest.simps model_defs example_defs)
  have c2: "cache_check slow_clock_env ?sa ?r = (None, ?sa)"
    by (simp add: model_defs slow_clock_env_fields example_defs)
  have g2: "getBestProvider (LLM_PROVIDERS (penv slow_clock_env)) (provider ?r) = Some ?p"
    by (simp add: model_defs slow_clock_env_fields example_defs)
  have t2: "try_dispatch slow_clock_env ?sa ?r ?p (model_or_first (model ?r) ?p) =
              (Inr deepseek_response, after_slow)"
    by (simp add: after_slow_def deepseek_response_def sendRequest.simps model_defs
        slow_clock_env_fields example_defs)
  have k2: "clock_reads after_slow = 1"
    by (simp add: after_slow_def sendRequest.simps model_defs slow_clock_env_fields example_defs)
  have fast: "Date_now example_env (clock_reads after_first) - Date_now example_env 0 < CACHE_DURATION"
    by (simp add: k1 example_env_fields CACHE_DURATION_def)
  have slow: "\<not> Date_now slow_clock_env (clock_reads after_slow) - Date_now slow_clock_env 0
                < CACHE_DURATION"
    by (simp add: k2 slow_clock_env_fields)
  from cache_hit_within_ttl [OF n n refl refl refl refl refl c1 g1 t1] fast k1(2)
  have one: "sendRequest example_env initial_state ?r = (Inr deepseek_response, after_first)"
    "sendRequest example_env after_first ?r =
        (Inr deepseek_response,
         after_first\<lparr>invocations := invocations after_first @ [?r],
                      clock_reads := Suc (clock_reads after_first)\<rparr>)"
    by simp_all
  from cache_hit_within_ttl [OF n n refl refl refl refl refl c2 g2 t2] slow k1(2)
  have two: "sendRequest slow_clock_env initial_state ?r = (Inr deepseek_response, after_slow)"
    "length (dispatched after_slow) <
       length (dispatched (snd (sendRequest slow_clock_env after_slow ?r)))"
    by simp_all
  from n one two fast slow show ?thesis by simp
qed

text \<open>The claim as stated fails when R1 succeeds through the fallback: its response is
  stored under the fingerprint of the request without provider, and the same request
  submitted a second later misses the cache and is dispatched again.\<close>

lemma after_fallback_fields:
  "fst (sendRequest flaky_env initial_state example_request) = Inr claude_response"
  "responseCache after_fallback =
     [''auto-default-0-0.7-rates'' \<mapsto> \<lparr>response = claude_response, timestamp = 0\<rparr>]"
  "length (dispatched after_fallback) = 2"
  "dispatched after_fallback \<noteq> []"
  "clock_reads after_fallback = 1"
  by (simp_all add: after_fallback_def claude_response_def sendRequest.simps model_defs
      example_defs)

theorem cache_miss_after_fallback_counterexample:
  "\<not> is_streaming example_request
   \<and> fst (sendRequest flaky_env initial_state example_request) = Inr claude_response
   \<and> after_fallback = snd (sendRequest flaky_env initial_state example_request)
   \<and> Date_now flaky_env (clock_reads after_fallback) - Date_now flaky_env 0 < CACHE_DURATION
   \<and> fst (sendRequest flaky_env after_fallback example_request) = Inr deepseek_response
   \<and> deepseek_response \<noteq> claude_response
   \<and> length (dispatched (snd (sendRequest flaky_env after_fallback example_request))) =
       length (dispatched after_fallback) + 1"
proof -
  have "\<not> is_streaming example_request"
    by (simp add: is_streaming_def example_request_def)
  moreover have "Date_now flaky_env (clock_reads after_fallback) - Date_now flaky_env 0 < CACHE_DURATION"
    by (simp add: after_fallback_fields flaky_env_fields CACHE_DURATION_def)
  moreover have "deepseek_response \<noteq> claude_response"
    by (simp add: deepseek_response_def claude_response_def)
  moreover have "fst (sendRequest flaky_env after_fallback example_request) = Inr deepseek_response"
    by (simp add: sendRequest.simps model_defs after_fallback_fields flaky_env_fields
        example_keys_def example_request_def reply_to_def openai_body_def example_ToString_def
        deepseek_response_def)
  moreover have "length (dispatched (snd (sendRequest flaky_env after_fallback example_request))) =
       length (dispatched after_fallback) + 1"
    by (simp add: sendRequest.simps model_defs after_fallback_fields flaky_env_fields
        example_keys_def example_request_def reply_to_def openai_body_def example_ToString_def)
  ultimately show ?thesis
    by (simp add: after_fallback_fields(1) after_fallback_def)
qed

end
